theory Spec2Isabelle
  imports Complex_Main "HOL-Library.Sublist"
begin

section \<open>JavaScript values\<close>

text \<open>
  The parsed reply of the analysis service is untyped JSON (the TypeScript cast
  \<^verbatim>\<open>parsed as ExtractedResumeDetails\<close> checks nothing at run time), so it is modelled as a
  JSON value. Finite numbers are exact rationals. \<open>JObj\<close> holds the own properties of
  an object, looked up by key.
\<close>

datatype jsval =
    JUndefined
  | JNull
  | JBool bool
  | JNum rat
  | JStr string
  | JArr "jsval list"
  | JObj "(string \<times> jsval) list"

text \<open>
  A thrown value. JavaScript can throw, and a promise can be rejected with, any
  value: \<open>Thrown m\<close> is a value that has properties, with its \<^verbatim>\<open>message\<close> when it has
  one, and \<open>ThrownNullish\<close> is \<^verbatim>\<open>null\<close> or \<^verbatim>\<open>undefined\<close>.
\<close>

datatype js_error = Thrown "string option" | ThrownNullish

text \<open>Reading a property of \<^verbatim>\<open>null\<close> or \<^verbatim>\<open>undefined\<close> throws a TypeError, whose
  message text is the engine's.\<close>

definition typeErrorText :: string where
  "typeErrorText = ''Cannot read properties of null''"

definition TypeError :: js_error where
  "TypeError = Thrown (Some typeErrorText)"

text \<open>\<^verbatim>\<open>err.message\<close>: the property, or the TypeError that reading it throws.\<close>

fun message :: "js_error \<Rightarrow> js_error + string option" where
  "message (Thrown m) = Inr m"
| "message ThrownNullish = Inl TypeError"

fun nullish :: "jsval \<Rightarrow> bool" where
  "nullish JUndefined = True"
| "nullish JNull = True"
| "nullish _ = False"

text \<open>\<^verbatim>\<open>data.k\<close> for a value that is not nullish: an own property of an object, and
  \<^verbatim>\<open>undefined\<close> otherwise (none of the property names read below exists on the
  prototype of a primitive or an array).\<close>

fun field :: "jsval \<Rightarrow> string \<Rightarrow> jsval" where
  "field (JObj kvs) k = (case map_of kvs k of Some v \<Rightarrow> v | None \<Rightarrow> JUndefined)"
| "field _ k = JUndefined"

text \<open>JavaScript truthiness (a JSON number is never NaN).\<close>

fun truthy :: "jsval \<Rightarrow> bool" where
  "truthy JUndefined = False"
| "truthy JNull = False"
| "truthy (JBool b) = b"
| "truthy (JNum r) = (r \<noteq> 0)"
| "truthy (JStr s) = (s \<noteq> [])"
| "truthy (JArr _) = True"
| "truthy (JObj _) = True"

text \<open>The operator \<^verbatim>\<open>a || b\<close>.\<close>

definition js_or :: "jsval \<Rightarrow> jsval \<Rightarrow> jsval" where
  "js_or a b = (if truthy a then a else b)"

text \<open>
  \<^verbatim>\<open>Number(v)\<close>; \<open>None\<close> is NaN. The conversion of strings, arrays and objects goes
  through the numeric-literal grammar of the language, which is taken as the
  parameter \<open>numberOf\<close>.
\<close>

fun Number :: "(jsval \<Rightarrow> rat option) \<Rightarrow> jsval \<Rightarrow> rat option" where
  "Number numberOf JUndefined = None"
| "Number numberOf JNull = Some 0"
| "Number numberOf (JBool b) = Some (if b then 1 else 0)"
| "Number numberOf (JNum r) = Some r"
| "Number numberOf v = numberOf v"

text \<open>\<^verbatim>\<open>Number(v) || 0\<close>: NaN and zero are falsy.\<close>

definition number_or_0 :: "(jsval \<Rightarrow> rat option) \<Rightarrow> jsval \<Rightarrow> rat" where
  "number_or_0 numberOf v = (case Number numberOf v of None \<Rightarrow> 0 | Some r \<Rightarrow> r)"

text \<open>\<^verbatim>\<open>s || d\<close> for an optional string property: absent and empty are falsy.\<close>

fun str_or :: "string option \<Rightarrow> string \<Rightarrow> string" where
  "str_or None d = d"
| "str_or (Some s) d = (if s = [] then d else s)"

text \<open>\<^verbatim>\<open>n || 0\<close> for an optional numeric property.\<close>

fun num_or_0 :: "int option \<Rightarrow> int" where
  "num_or_0 None = 0"
| "num_or_0 (Some n) = n"

section \<open>Data model\<close>

datatype status = READY | READING | PARSING | COMPLETED | ERROR

text \<open>The browser's \<^verbatim>\<open>File\<close>: name, size in bytes and MIME type.\<close>

record js_file =
  file_name :: string
  file_size :: nat
  file_type :: string

text \<open>\<^verbatim>\<open>interface UploadFile\<close>.\<close>

record upload_file =
  uf_id :: string
  uf_file :: js_file
  uf_name :: string
  uf_size :: string
  uf_status :: status
  uf_progress :: nat
  uf_result :: "jsval option"

text \<open>\<^verbatim>\<open>Job\<close>, with the fields the page reads and writes.\<close>

record job =
  job_id :: string
  job_title :: string
  job_department :: string
  job_location :: "string option"
  job_type :: string
  job_status :: string
  applicantsCount :: "int option"
  matchesCount :: "int option"
  job_skills :: "string list option"
  job_description :: "string option"

text \<open>The template \<^verbatim>\<open>`c-${Date.now()}-${i}`\<close>, kept as its two numbers.\<close>

datatype candidate_id = CId nat nat

record candidate =
  cand_id :: candidate_id
  cand_name :: jsval
  cand_role :: jsval
  cand_company :: string
  cand_location :: string
  appliedDate :: string
  cand_status :: string
  matchScore :: rat
  jdMatchScore :: jsval
  qualificationMatchScore :: jsval
  resumeMatchScore :: jsval
  candidateRecordScore :: jsval
  jdMatchReason :: jsval
  qualificationMatchReason :: jsval
  resumeMatchReason :: jsval
  candidateRecordReason :: jsval
  deepAnalysis :: jsval
  associatedJdId :: string
  analysis :: jsval
  resumeBase64 :: jsval
  resumeMimeType :: string

section \<open>Document intake\<close>

text \<open>\<^verbatim>\<open>removeFile(id)\<close>: \<^verbatim>\<open>setFiles(prev => prev.filter(f => f.id !== id))\<close>.\<close>

definition removeFile :: "string \<Rightarrow> upload_file list \<Rightarrow> upload_file list" where
  "removeFile i prev = filter (\<lambda>f. uf_id f \<noteq> i) prev"

section \<open>Strings\<close>

text \<open>\<^verbatim>\<open>s.split(c)\<close> for a one-character separator; \<^verbatim>\<open>"".split(",")\<close> is \<^verbatim>\<open>[""]\<close>.\<close>

fun split :: "char \<Rightarrow> string \<Rightarrow> string list" where
  "split c [] = [[]]"
| "split c (x # xs) =
     (if x = c then [] # split c xs
      else (case split c xs of w # ws \<Rightarrow> (x # w) # ws | [] \<Rightarrow> [[x]]))"

text \<open>
  \<^verbatim>\<open>name.replace(/\.[^/.]+$/, "")\<close>: the leftmost match is removed. A match starts at
  a dot that is followed, up to the end of the string, by one or more characters
  other than \<^verbatim>\<open>/\<close> and \<^verbatim>\<open>.\<close>.
\<close>

fun strip_ext :: "string \<Rightarrow> string" where
  "strip_ext [] = []"
| "strip_ext (c # cs) =
     (if c = CHR ''.'' \<and> cs \<noteq> [] \<and> (\<forall>d \<in> set cs. d \<noteq> CHR ''/'' \<and> d \<noteq> CHR ''.'')
      then [] else c # strip_ext cs)"

text \<open>\<^verbatim>\<open>s.replace(/[_-]/g, ' ')\<close>.\<close>

definition spaces :: "string \<Rightarrow> string" where
  "spaces s = map (\<lambda>c. if c = CHR ''_'' \<or> c = CHR ''-'' then CHR '' '' else c) s"

text \<open>A template literal prints an absent string as \<^verbatim>\<open>undefined\<close>.\<close>

fun tmpl :: "string option \<Rightarrow> string" where
  "tmpl None = ''undefined''"
| "tmpl (Some s) = s"

text \<open>\<^verbatim>\<open>err.message || 'Unknown error'\<close>, which throws when \<open>err\<close> is \<^verbatim>\<open>null\<close> or
  \<^verbatim>\<open>undefined\<close>.\<close>

definition msg_or_unknown :: "js_error \<Rightarrow> js_error + string" where
  "msg_or_unknown err =
     (case message err of Inl t \<Rightarrow> Inl t | Inr m \<Rightarrow> Inr (str_or m ''Unknown error''))"

section \<open>The outside world\<close>

text \<open>\<^verbatim>\<open>interface ExtractedJobDetails\<close>; a reply may omit a field.\<close>

record extracted_job_details =
  ejd_title :: "string option"
  ejd_department :: "string option"
  ejd_location :: "string option"
  ejd_type :: "string option"
  ejd_skills :: "string list option"

text \<open>
  What the collaborators answer during one run. Per-item answers are indexed by
  the loop index \<open>i\<close> of the item being processed.
  \<^item> \<open>apiKey\<close>: whether \<^verbatim>\<open>API_KEY\<close> is set;
  \<^item> \<open>readAsDataURL\<close>: the \<^verbatim>\<open>FileReader\<close> result for a file, or its error;
  \<^item> \<open>reply\<close>: the outcome of \<^verbatim>\<open>generateContent\<close>, \<^verbatim>\<open>response.text()\<close>, the removal of
    markdown fences and \<^verbatim>\<open>JSON.parse\<close> for item \<open>i\<close>: the parsed value, or the first
    error thrown among them;
  \<^item> \<open>numberOf\<close>: \<^verbatim>\<open>Number\<close> on strings, arrays and objects;
  \<^item> \<open>now\<close>, \<open>today\<close>: \<^verbatim>\<open>Date.now()\<close> and the formatted date at item \<open>i\<close>;
  \<^item> \<open>candidatesInsertOne\<close>, \<open>jobsUpdateOne\<close>, \<open>jobsRefetch\<close>: the error, if any,
    of the store call made for item \<open>i\<close>;
  \<^item> \<open>jobsFind\<close>, \<open>jobsInsertOne\<close>: the error, if any, of the store call made
    before the loop;
  \<^item> \<open>extractJobDetails\<close>: the outcome of \<^verbatim>\<open>extractJobDetailsFromPDF\<close> (a reply that is
    \<^verbatim>\<open>null\<close> makes the first property read throw inside the same \<^verbatim>\<open>try\<close>, so it
    counts as an error here);
  \<^item> \<open>jobNow\<close>: the digits of \<^verbatim>\<open>Date.now()\<close> when the job record is built.
\<close>

record env =
  apiKey :: bool
  readAsDataURL :: "js_file \<Rightarrow> js_error + string"
  reply :: "nat \<Rightarrow> js_error + jsval"
  numberOf :: "jsval \<Rightarrow> rat option"
  now :: "nat \<Rightarrow> nat"
  today :: "nat \<Rightarrow> string"
  candidatesInsertOne :: "nat \<Rightarrow> js_error option"
  jobsUpdateOne :: "nat \<Rightarrow> js_error option"
  jobsRefetch :: "nat \<Rightarrow> js_error option"
  jobsFind :: "js_error option"
  jobsInsertOne :: "js_error option"
  extractJobDetails :: "js_file \<Rightarrow> js_error + extracted_job_details"
  jobNow :: string

text \<open>
  The effects of a run that the page itself cannot read back, in call order: the
  throttle delay (milliseconds), a call of \<^verbatim>\<open>analyzeResume\<close> for the item at an
  index, a status change of the item at an index (from, to), and an error
  message shown by \<^verbatim>\<open>setErrorMsg\<close>.
\<close>

datatype event =
    Throttle nat
  | AnalysisCall nat
  | Transition nat status status
  | ErrorShown string

datatype job_source = Database | Upload

text \<open>
  The React state of the page (\<open>files\<close>, \<open>selectedJobId\<close>, \<open>isAnalyzing\<close>,
  \<open>errorMsg\<close>, \<open>jobs\<close>; \<open>jobSource\<close> and \<open>parsedJd\<close> of the first page of
  \<^verbatim>\<open>part_000\<close>; \<open>jdSource\<close> (\<^verbatim>\<open>'select'\<close> is \<open>Database\<close>), \<open>jdFile\<close> and
  \<open>isExtractingJd\<close> of its second page), the two stores, and the trace of effects.
\<close>

record world =
  files :: "upload_file list"
  selectedJobId :: string
  isAnalyzing :: bool
  errorMsg :: "string option"
  jobs :: "job list"
  jobSource :: job_source
  parsedJd :: "extracted_job_details option"
  jdSource :: job_source
  jdFile :: "js_file option"
  isExtractingJd :: bool
  db_jobs :: "job list"
  db_candidates :: "candidate list"
  trace :: "event list"

section \<open>The stores\<close>

text \<open>Modelled from the spec: the module \<^verbatim>\<open>services/db\<close> is not among the sources. The
  job store's \<^verbatim>\<open>updateOne(id, partialFields)\<close> overwrites the given fields of the
  record with that id; here the two counters, the only fields the page updates.
  The stores are external: \<^verbatim>\<open>find()\<close> returns copies of the records.\<close>

definition jobs_updateOne :: "string \<Rightarrow> int \<Rightarrow> int \<Rightarrow> job list \<Rightarrow> job list" where
  "jobs_updateOne jid a m js =
     map (\<lambda>j. if job_id j = jid then j\<lparr>applicantsCount := Some a, matchesCount := Some m\<rparr> else j) js"

text \<open>Modelled from the spec: \<^verbatim>\<open>insertOne\<close> of the module \<^verbatim>\<open>services/db\<close> (not among the
  sources) adds the record to the store.\<close>

definition insertOne :: "'a \<Rightarrow> 'a list \<Rightarrow> 'a list" where
  "insertOne x xs = xs @ [x]"

section \<open>Analysis gateway (\<^verbatim>\<open>services/ai.ts\<close>)\<close>

text \<open>\<^verbatim>\<open>fileToBase64\<close>: \<^verbatim>\<open>(reader.result as string).split(',')[1]\<close>, which is
  \<^verbatim>\<open>undefined\<close> when the result has no comma.\<close>

definition fileToBase64 :: "env \<Rightarrow> js_file \<Rightarrow> js_error + jsval" where
  "fileToBase64 e f =
     (case readAsDataURL e f of
        Inl err \<Rightarrow> Inl err
      | Inr url \<Rightarrow> Inr (case split CHR '','' url of _ # b # _ \<Rightarrow> JStr b | _ \<Rightarrow> JUndefined))"

text \<open>The job context passed to the gateway and used for the record's fallbacks.\<close>

record job_context =
  ctx_title :: "string option"
  ctx_skills :: "string list option"
  ctx_description :: "string option"
  ctx_location :: "string option"

text \<open>
  \<^verbatim>\<open>analyzeResume\<close>: the key check, the encoding of the file, the prompt (where
  \<^verbatim>\<open>jobContext.skills.join\<close> throws on absent skills) and the reply, returned as
  parsed, with no check of its fields.
\<close>

definition analyzeResume :: "env \<Rightarrow> nat \<Rightarrow> js_file \<Rightarrow> job_context \<Rightarrow> js_error + jsval" where
  "analyzeResume e i f ctx =
     (if \<not> apiKey e then Inl (Thrown (Some ''Gemini API Key is missing.''))
      else
        (case fileToBase64 e f of
           Inl err \<Rightarrow> Inl err
         | Inr base64Data \<Rightarrow>
             (case ctx_skills ctx of None \<Rightarrow> Inl TypeError | Some _ \<Rightarrow> reply e i)))"

section \<open>State updates of the page\<close>

text \<open>\<^verbatim>\<open>setErrorMsg(msg)\<close> with a message.\<close>

definition setErrorMsg :: "string \<Rightarrow> world \<Rightarrow> world" where
  "setErrorMsg msg w = w\<lparr>errorMsg := Some msg, trace := trace w @ [ErrorShown msg]\<rparr>"

text \<open>
  \<^verbatim>\<open>setFiles(prev => prev.map((f, idx) => idx === i ? { ...f, status, progress } : f))\<close>.
  An index beyond the list changes nothing, as in the source.
\<close>

definition setStatus :: "nat \<Rightarrow> status \<Rightarrow> nat \<Rightarrow> world \<Rightarrow> world" where
  "setStatus i st pr w =
     w\<lparr>files := (files w)[i := (files w ! i)\<lparr>uf_status := st, uf_progress := pr\<rparr>],
       trace := trace w @
         (if i < length (files w) then [Transition i (uf_status (files w ! i)) st] else [])\<rparr>"

text \<open>\<^verbatim>\<open>{ ...f, progress: 80 }\<close> at index \<open>i\<close>.\<close>

definition setProgress :: "nat \<Rightarrow> nat \<Rightarrow> world \<Rightarrow> world" where
  "setProgress i pr w = w\<lparr>files := (files w)[i := (files w ! i)\<lparr>uf_progress := pr\<rparr>]\<rparr>"

text \<open>\<^verbatim>\<open>{ ...f, status: 'COMPLETED', progress: 100, result: data }\<close> at index \<open>i\<close>.\<close>

definition setCompleted :: "nat \<Rightarrow> jsval \<Rightarrow> world \<Rightarrow> world" where
  "setCompleted i data w =
     w\<lparr>files := (files w)[i := (files w ! i)\<lparr>uf_status := COMPLETED, uf_progress := 100,
                                             uf_result := Some data\<rparr>],
       trace := trace w @
         (if i < length (files w) then [Transition i (uf_status (files w ! i)) COMPLETED] else [])\<rparr>"

section \<open>Result persistence\<close>

definition MiB :: nat where
  "MiB = 1 * 1024 * 1024"

text \<open>
  The object literal \<^verbatim>\<open>newCandidate\<close> of \<^verbatim>\<open>pages/ResumeScore.tsx\<close>. The two pages of
  \<^verbatim>\<open>part_000\<close> build the same record without the two \<^verbatim>\<open>candidateRecord\<close> fields
  (\<open>rs = False\<close>).
\<close>

definition newCandidate ::
  "bool \<Rightarrow> nat \<Rightarrow> string \<Rightarrow> nat \<Rightarrow> jsval \<Rightarrow> rat \<Rightarrow> jsval \<Rightarrow> upload_file \<Rightarrow> job_context \<Rightarrow> string
     \<Rightarrow> candidate" where
  "newCandidate rs t day i data ms base64Data currentFile ctx jid =
     \<lparr>cand_id = CId t i,
      cand_name = js_or (field data ''candidateName'') (JStr (spaces (strip_ext (uf_name currentFile)))),
      cand_role = js_or (field data ''currentRole'')
                    (case ctx_title ctx of Some title \<Rightarrow> JStr title | None \<Rightarrow> JUndefined),
      cand_company = ''Extracted Profile'',
      cand_location = str_or (ctx_location ctx) ''Remote'',
      appliedDate = day,
      cand_status = ''New'',
      matchScore = ms,
      jdMatchScore = js_or (field data ''jdMatchScore'') (JNum 0),
      qualificationMatchScore = js_or (field data ''qualificationMatchScore'') (JNum 0),
      resumeMatchScore = js_or (field data ''resumeMatchScore'') (JNum 0),
      candidateRecordScore =
        (if rs then js_or (field data ''candidateRecordScore'') (JNum 0) else JUndefined),
      jdMatchReason = js_or (field data ''jdMatchReason'') (JStr ''Analysis not available''),
      qualificationMatchReason =
        js_or (field data ''qualificationMatchReason'') (JStr ''Analysis not available''),
      resumeMatchReason = js_or (field data ''resumeMatchReason'') (JStr ''Analysis not available''),
      candidateRecordReason =
        (if rs then js_or (field data ''candidateRecordReason'') (JStr ''Analysis not available'')
         else JUndefined),
      deepAnalysis = field data ''deepAnalysis'',
      associatedJdId = jid,
      analysis = field data ''analysis'',
      resumeBase64 = (if file_size (uf_file currentFile) < MiB then base64Data else JStr []),
      resumeMimeType = file_type (uf_file currentFile)\<rparr>"

text \<open>The step that updates the job's counters after the insert of item \<open>i\<close> with
  overall score \<open>ms\<close>: the new job store, or the error thrown.\<close>

type_synonym stats_update = "nat \<Rightarrow> rat \<Rightarrow> job list \<Rightarrow> js_error + job list"

text \<open>
  \<^verbatim>\<open>pages/ResumeScore.tsx\<close> and the second page of \<^verbatim>\<open>part_000\<close>:
  \<^verbatim>\<open>db.jobs.updateOne(currentJob.id, {...})\<close>, the counters computed from \<open>currentJob\<close>,
  the record the caller holds.
\<close>

definition updateStats :: "env \<Rightarrow> job \<Rightarrow> stats_update" where
  "updateStats e currentJob i ms js =
     (case jobsUpdateOne e i of
        Some err \<Rightarrow> Inl err
      | None \<Rightarrow>
          Inr (jobs_updateOne (job_id currentJob)
                 (num_or_0 (applicantsCount currentJob) + 1)
                 (if ms > 80 then num_or_0 (matchesCount currentJob) + 1
                  else num_or_0 (matchesCount currentJob))
                 js))"

text \<open>
  The first page of \<^verbatim>\<open>part_000\<close>: only for a job of the database, the jobs are
  fetched again and the update is made from the record found, if any.
\<close>

definition updateStats_refetch :: "env \<Rightarrow> job_source \<Rightarrow> string \<Rightarrow> stats_update" where
  "updateStats_refetch e src sel i ms js =
     (if src = Database then
        (case jobsRefetch e i of
           Some err \<Rightarrow> Inl err
         | None \<Rightarrow>
             (case find (\<lambda>j. job_id j = sel) js of
                None \<Rightarrow> Inr js
              | Some currentJob \<Rightarrow> updateStats e currentJob i ms js))
      else Inr js)"

section \<open>Throttled sequential scheduler\<close>

text \<open>
  A run of \<^verbatim>\<open>startAnalysis\<close> is followed from its call to its return with no other
  event of the page in between: during a run the queue is changed by the run alone.
\<close>

text \<open>
  The body of the inner \<^verbatim>\<open>try\<close> for the item at index \<open>i\<close>: the world when the block
  is left, and the error caught, if any. The parameters are what the three pages
  differ in: the job context \<open>ctx\<close>, the job id \<open>jid\<close> written to the record, the
  presence of the \<^verbatim>\<open>candidateRecord\<close> fields \<open>rs\<close> and the counter update \<open>upd\<close>.
\<close>

definition tryItem ::
  "env \<Rightarrow> job_context \<Rightarrow> string \<Rightarrow> bool \<Rightarrow> stats_update \<Rightarrow> nat \<Rightarrow> upload_file \<Rightarrow> world
     \<Rightarrow> world \<times> js_error option" where
  "tryItem e ctx jid rs upd i currentFile w =
     (let w1 = setStatus i PARSING 30 w;
          w2 = w1\<lparr>trace := trace w1 @ [AnalysisCall i]\<rparr>
      in (case analyzeResume e i (uf_file currentFile) ctx of
            Inl err \<Rightarrow> (w2, Some err)
          | Inr data \<Rightarrow>
              (if nullish data then (w2, Some TypeError)
               else
                 (let ms = number_or_0 (numberOf e) (field data ''matchScore'');
                      w3 = setProgress i 80 w2
                  in (case fileToBase64 e (uf_file currentFile) of
                        Inl err \<Rightarrow> (w3, Some err)
                      | Inr base64Data \<Rightarrow>
                          (case candidatesInsertOne e i of
                             Some err \<Rightarrow> (w3, Some err)
                           | None \<Rightarrow>
                               (let c = newCandidate rs (now e i) (today e i) i data ms base64Data
                                          currentFile ctx jid;
                                    w4 = w3\<lparr>db_candidates := insertOne c (db_candidates w3)\<rparr>
                                in (case upd i ms (db_jobs w4) of
                                      Inl err \<Rightarrow> (w4, Some err)
                                    | Inr js \<Rightarrow>
                                        (setCompleted i data (w4\<lparr>db_jobs := js\<rparr>), None)))))))))"

text \<open>\<^verbatim>\<open>if (i > 0) await new Promise(r => setTimeout(r, 3000))\<close>.\<close>

definition throttle :: "nat \<Rightarrow> world \<Rightarrow> world" where
  "throttle i w = (if i > 0 then w\<lparr>trace := trace w @ [Throttle 3000]\<rparr> else w)"

text \<open>
  One turn of the \<^verbatim>\<open>for\<close> loop: the skip, the throttle, the \<^verbatim>\<open>try\<close> and its
  \<^verbatim>\<open>catch\<close>. \<open>currentFile\<close> is \<^verbatim>\<open>files[i]\<close> of the list the run started with. The
  \<^verbatim>\<open>catch\<close> sets the item to \<open>ERROR\<close> and then builds its message from
  \<^verbatim>\<open>err.message\<close>: when that read throws, the error leaves the turn, and the result
  is the world at that point with the error that escapes.
\<close>

definition iteration ::
  "env \<Rightarrow> job_context \<Rightarrow> string \<Rightarrow> bool \<Rightarrow> stats_update \<Rightarrow> nat \<Rightarrow> upload_file \<Rightarrow> world
     \<Rightarrow> world \<times> js_error option" where
  "iteration e ctx jid rs upd i currentFile w =
     (if uf_status currentFile = COMPLETED then (w, None)
      else
        let w1 = throttle i w;
            w2 = setStatus i READING 10 w1
        in (case tryItem e ctx jid rs upd i currentFile w2 of
              (w3, None) \<Rightarrow> (w3, None)
            | (w3, Some err) \<Rightarrow>
                (let w4 = setStatus i ERROR 0 w3
                 in (case msg_or_unknown err of
                       Inl t \<Rightarrow> (w4, Some t)
                     | Inr m \<Rightarrow>
                         (setErrorMsg (''Failed to analyze '' @ uf_name currentFile @ '': '' @ m) w4,
                          None)))))"

text \<open>\<^verbatim>\<open>for (let i = 0; i < files.length; i++)\<close>, from index \<open>i\<close> over the rest of the
  list the run started with. An error that escapes a turn ends the loop: the items
  after it get no turn.\<close>

fun loop ::
  "env \<Rightarrow> job_context \<Rightarrow> string \<Rightarrow> bool \<Rightarrow> stats_update \<Rightarrow> nat \<Rightarrow> upload_file list \<Rightarrow> world
     \<Rightarrow> world \<times> js_error option" where
  "loop e ctx jid rs upd i [] w = (w, None)"
| "loop e ctx jid rs upd i (currentFile # rest) w =
     (case iteration e ctx jid rs upd i currentFile w of
        (w', None) \<Rightarrow> loop e ctx jid rs upd (Suc i) rest w'
      | (w', Some t) \<Rightarrow> (w', Some t))"

text \<open>
  The outer \<^verbatim>\<open>catch\<close> and \<^verbatim>\<open>finally\<close>: the message
  \<^verbatim>\<open>`Analysis failed: ${err.message || 'Unknown error'}`\<close> is shown unless building it
  throws, and \<^verbatim>\<open>setIsAnalyzing(false)\<close> runs in either case. The rejection of the
  promise that \<^verbatim>\<open>startAnalysis\<close> returns is not part of the page's state.
\<close>

definition outerCatch :: "js_error \<Rightarrow> world \<Rightarrow> world" where
  "outerCatch err w =
     (case msg_or_unknown err of
        Inl t \<Rightarrow> w
      | Inr m \<Rightarrow> setErrorMsg (''Analysis failed: '' @ m) w)\<lparr>isAnalyzing := False\<rparr>"

text \<open>The end of a run that reached the loop: the outer \<^verbatim>\<open>catch\<close> for an error that
  escaped, and the \<^verbatim>\<open>finally\<close>.\<close>

definition afterLoop :: "world \<times> js_error option \<Rightarrow> world" where
  "afterLoop r =
     (case r of (w, None) \<Rightarrow> w\<lparr>isAnalyzing := False\<rparr> | (w, Some t) \<Rightarrow> outerCatch t w)"

text \<open>The context built from a stored job: \<^verbatim>\<open>skills: currentJob.skills || []\<close>.\<close>

definition context_of_job :: "job \<Rightarrow> job_context" where
  "context_of_job j =
     \<lparr>ctx_title = Some (job_title j),
      ctx_skills = Some (case job_skills j of None \<Rightarrow> [] | Some ss \<Rightarrow> ss),
      ctx_description = job_description j,
      ctx_location = job_location j\<rparr>"

text \<open>\<^verbatim>\<open>startAnalysis\<close> of \<^verbatim>\<open>pages/ResumeScore.tsx\<close>.\<close>

definition startAnalysis :: "env \<Rightarrow> world \<Rightarrow> world" where
  "startAnalysis e w =
     (let w0 = w\<lparr>errorMsg := None\<rparr> in
      if selectedJobId w = [] \<or> files w = [] then
        setErrorMsg ''Please select a job and upload at least one resume.'' w0
      else
        (let w1 = w0\<lparr>isAnalyzing := True\<rparr> in
         (case jobsFind e of
            Some err \<Rightarrow> outerCatch err w1
          | None \<Rightarrow>
              (case find (\<lambda>j. job_id j = selectedJobId w) (db_jobs w1) of
                 None \<Rightarrow>
                   (setErrorMsg
                      ''The selected job could not be found in the database. Please refresh.'' w1)
                   \<lparr>isAnalyzing := False\<rparr>
               | Some currentJob \<Rightarrow>
                   afterLoop
                     (loop e (context_of_job currentJob) (selectedJobId w) True
                        (updateStats e currentJob) 0 (files w) w1)))))"

text \<open>
  \<^verbatim>\<open>startAnalysis\<close> of the first page of \<^verbatim>\<open>part_000\<close> (state \<open>jobSource\<close>, \<open>parsedJd\<close>):
  the resolution of the job context, whose \<^verbatim>\<open>throw\<close>s reach the outer \<^verbatim>\<open>catch\<close>.
\<close>

definition resolveContext :: "env \<Rightarrow> world \<Rightarrow> js_error + (job_context \<times> string)" where
  "resolveContext e w =
     (if jobSource w = Database then
        (case jobsFind e of
           Some err \<Rightarrow> Inl err
         | None \<Rightarrow>
             (case find (\<lambda>j. job_id j = selectedJobId w) (db_jobs w) of
                None \<Rightarrow> Inl (Thrown (Some ''Selected job not found in database.''))
              | Some job \<Rightarrow> Inr (context_of_job job, selectedJobId w)))
      else
        (case parsedJd w of
           None \<Rightarrow> Inl (Thrown (Some ''No parsed JD available.''))
         | Some pj \<Rightarrow>
             Inr (\<lparr>ctx_title = ejd_title pj,
                   ctx_skills = ejd_skills pj,
                   ctx_description =
                     Some (''Department: '' @ tmpl (ejd_department pj) @ ''. Type: '' @
                           tmpl (ejd_type pj) @ ''. '' @ tmpl (ejd_title pj) @ ''.''),
                   ctx_location = ejd_location pj\<rparr>,
                  ''temp-uploaded-jd'')))"

definition startAnalysis_jobSource :: "env \<Rightarrow> world \<Rightarrow> world" where
  "startAnalysis_jobSource e w =
     (let w0 = w\<lparr>errorMsg := None\<rparr> in
      if jobSource w = Database \<and> selectedJobId w = [] then
        setErrorMsg ''Please select a job from the list.'' w0
      else if jobSource w = Upload \<and> parsedJd w = None then
        setErrorMsg ''Please upload and let AI parse a Job Description first.'' w0
      else if files w = [] then
        setErrorMsg ''Please upload at least one resume.'' w0
      else
        (let w1 = w0\<lparr>isAnalyzing := True\<rparr> in
         (case resolveContext e w1 of
            Inl err \<Rightarrow> outerCatch err w1
          | Inr (jobContext, currentJobId) \<Rightarrow>
              afterLoop
                (loop e jobContext currentJobId False
                   (updateStats_refetch e (jobSource w) (selectedJobId w)) 0 (files w) w1))))"

text \<open>
  \<^verbatim>\<open>startAnalysis\<close> of the second page of \<^verbatim>\<open>part_000\<close> (state \<open>jdSource\<close>, \<open>jdFile\<close>):
  the job record built from the extracted details.
\<close>

definition newJob :: "env \<Rightarrow> js_file \<Rightarrow> extracted_job_details \<Rightarrow> job" where
  "newJob e jd extractedJd =
     \<lparr>job_id = ''j-'' @ jobNow e,
      job_title = str_or (ejd_title extractedJd) ''Uploaded Job Position'',
      job_department = str_or (ejd_department extractedJd) ''General'',
      job_location = Some (str_or (ejd_location extractedJd) ''Remote''),
      job_type = str_or (ejd_type extractedJd) ''Full-time'',
      job_status = ''Active'',
      applicantsCount = Some 0,
      matchesCount = Some 0,
      job_skills = Some (case ejd_skills extractedJd of None \<Rightarrow> [] | Some ss \<Rightarrow> ss),
      job_description = Some (''Extracted from '' @ file_name jd)\<rparr>"

text \<open>
  The inner \<^verbatim>\<open>catch\<close> around the extraction: it shows
  \<^verbatim>\<open>`Failed to extract job details: ${err.message}`\<close> and returns through the two
  \<^verbatim>\<open>finally\<close> blocks. When reading \<^verbatim>\<open>err.message\<close> throws, the inner \<^verbatim>\<open>finally\<close> runs
  and the TypeError reaches the outer \<^verbatim>\<open>catch\<close>.
\<close>

definition extractionFailed :: "js_error \<Rightarrow> world \<Rightarrow> world" where
  "extractionFailed err w =
     (case message err of
        Inr m \<Rightarrow>
          (setErrorMsg (''Failed to extract job details: '' @ tmpl m) w)
          \<lparr>isAnalyzing := False, isExtractingJd := False\<rparr>
      | Inl t \<Rightarrow> outerCatch t (w\<lparr>isExtractingJd := False\<rparr>))"

definition startAnalysis_jdSource :: "env \<Rightarrow> world \<Rightarrow> world" where
  "startAnalysis_jdSource e w =
     (let w0 = w\<lparr>errorMsg := None\<rparr> in
      if selectedJobId w = [] \<or> files w = [] then
        setErrorMsg ''Please select a job and upload at least one resume.'' w0
      else
        (let w1 = w0\<lparr>isAnalyzing := True\<rparr> in
         (case (if jdSource w = Upload then jdFile w else None) of
            Some jd \<Rightarrow>
              (let w2 = w1\<lparr>isExtractingJd := True\<rparr> in
               (case extractJobDetails e jd of
                  Inl err \<Rightarrow> extractionFailed err w2
                | Inr extractedJd \<Rightarrow>
                    (let currentJob = newJob e jd extractedJd;
                         w3 = w2\<lparr>jobs := currentJob # jobs w2, selectedJobId := job_id currentJob\<rparr>
                     in (case jobsInsertOne e of
                           Some err \<Rightarrow> extractionFailed err w3
                         | None \<Rightarrow>
                             (let w4 = w3\<lparr>db_jobs := insertOne currentJob (db_jobs w3),
                                          isExtractingJd := False\<rparr>
                              in afterLoop
                                   (loop e (context_of_job currentJob) (selectedJobId w) False
                                      (updateStats e currentJob) 0 (files w) w4))))))
          | None \<Rightarrow>
              (case jobsFind e of
                 Some err \<Rightarrow> outerCatch err w1
               | None \<Rightarrow>
                   (case find (\<lambda>j. job_id j = selectedJobId w) (db_jobs w1) of
                      None \<Rightarrow>
                        (setErrorMsg
                           ''The selected job could not be found in the database. Please refresh.''
                           w1)
                        \<lparr>isAnalyzing := False\<rparr>
                    | Some currentJob \<Rightarrow>
                        afterLoop
                          (loop e (context_of_job currentJob) (selectedJobId w) False
                             (updateStats e currentJob) 0 (files w) w1))))))"

section \<open>Observations on a run\<close>

text \<open>How often the run waited for the throttle delay.\<close>

definition delays :: "event list \<Rightarrow> nat" where
  "delays tr = length (filter (\<lambda>ev. ev = Throttle 3000) tr)"

text \<open>How many analysis calls the run issued.\<close>

fun isAnalysisCall :: "event \<Rightarrow> bool" where
  "isAnalysisCall (AnalysisCall i) = True"
| "isAnalysisCall _ = False"

definition analysisCalls :: "event list \<Rightarrow> nat" where
  "analysisCalls tr = length (filter isAnalysisCall tr)"

text \<open>The error messages shown, in order.\<close>

fun errorsShown :: "event list \<Rightarrow> string list" where
  "errorsShown [] = []"
| "errorsShown (ErrorShown m # tr) = m # errorsShown tr"
| "errorsShown (_ # tr) = errorsShown tr"

text \<open>The items of a queue that are not yet completed, and those among them that
  are not at the head of the queue.\<close>

definition pending :: "upload_file list \<Rightarrow> nat" where
  "pending fs = length (filter (\<lambda>f. uf_status f \<noteq> COMPLETED) fs)"

definition pendingAfterFirst :: "upload_file list \<Rightarrow> nat" where
  "pendingAfterFirst fs = pending (tl fs)"

text \<open>The number of items with a given status.\<close>

definition countStatus :: "status \<Rightarrow> upload_file list \<Rightarrow> nat" where
  "countStatus st fs = length (filter (\<lambda>f. uf_status f = st) fs)"

text \<open>The error of a step, if it throws.\<close>

fun thrown :: "js_error + 'a \<Rightarrow> js_error option" where
  "thrown (Inl err) = Some err"
| "thrown (Inr x) = None"

text \<open>
  The error of the inner \<^verbatim>\<open>try\<close> for item \<open>i\<close>, read off the answers of the
  collaborators alone: the first step that throws, in program order. It is shown
  below to be the error that \<open>tryItem\<close> returns.
\<close>

definition failure ::
  "env \<Rightarrow> job_context \<Rightarrow> stats_update \<Rightarrow> nat \<Rightarrow> upload_file \<Rightarrow> job list \<Rightarrow> js_error option" where
  "failure e ctx upd i currentFile js =
     (case analyzeResume e i (uf_file currentFile) ctx of
        Inl err \<Rightarrow> Some err
      | Inr data \<Rightarrow>
          (if nullish data then Some TypeError
           else
             (case fileToBase64 e (uf_file currentFile) of
                Inl err \<Rightarrow> Some err
              | Inr base64Data \<Rightarrow>
                  (case candidatesInsertOne e i of
                     Some err \<Rightarrow> Some err
                   | None \<Rightarrow>
                       thrown (upd i (number_or_0 (numberOf e) (field data ''matchScore'')) js)))))"

section \<open>What one turn of the loop leaves behind\<close>

text \<open>The effects of one run of a page: what it appended to the trace.\<close>

definition eventsOf :: "(world \<Rightarrow> world) \<Rightarrow> world \<Rightarrow> event list" where
  "eventsOf run w = drop (length (trace w)) (trace (run w))"

text \<open>
  Whether the insert of item \<open>i\<close> is reached and succeeds, read off the answers of
  the collaborators: the parsed reply and the encoded file it is made from. It is
  shown below to decide what \<open>tryItem\<close> adds to the candidate store.
\<close>

definition inserted :: "env \<Rightarrow> job_context \<Rightarrow> nat \<Rightarrow> upload_file \<Rightarrow> (jsval \<times> jsval) option" where
  "inserted e ctx i currentFile =
     (case analyzeResume e i (uf_file currentFile) ctx of
        Inl err \<Rightarrow> None
      | Inr data \<Rightarrow>
          (if nullish data then None
           else
             (case fileToBase64 e (uf_file currentFile) of
                Inl err \<Rightarrow> None
              | Inr base64Data \<Rightarrow>
                  (case candidatesInsertOne e i of
                     Some err \<Rightarrow> None
                   | None \<Rightarrow> Some (data, base64Data)))))"

text \<open>The record built for item \<open>i\<close> from a reply and an encoded file.\<close>

definition recordOf ::
  "env \<Rightarrow> job_context \<Rightarrow> string \<Rightarrow> bool \<Rightarrow> nat \<Rightarrow> upload_file \<Rightarrow> jsval \<Rightarrow> jsval \<Rightarrow> candidate" where
  "recordOf e ctx jid rs i currentFile data base64Data =
     newCandidate rs (now e i) (today e i) i data
       (number_or_0 (numberOf e) (field data ''matchScore'')) base64Data currentFile ctx jid"

text \<open>An event that is a status change of some item.\<close>

fun isTransition :: "event \<Rightarrow> bool" where
  "isTransition (Transition k a b) = True"
| "isTransition _ = False"

text \<open>A counter update whose success does not depend on the content of the store.\<close>

definition storeBlind :: "stats_update \<Rightarrow> bool" where
  "storeBlind upd = (\<forall>i ms js js'. thrown (upd i ms js) = thrown (upd i ms js'))"

text \<open>The item at index \<open>i\<close> after its turn, when the turn is not skipped: \<open>js\<close> is
  the job store the turn starts with and \<open>f\<close> the item as the page holds it.\<close>

definition final ::
  "env \<Rightarrow> job_context \<Rightarrow> stats_update \<Rightarrow> nat \<Rightarrow> upload_file \<Rightarrow> job list \<Rightarrow> upload_file
     \<Rightarrow> upload_file" where
  "final e ctx upd i currentFile js f =
     (case failure e ctx upd i currentFile js of
        Some err \<Rightarrow> f\<lparr>uf_status := ERROR, uf_progress := 0\<rparr>
      | None \<Rightarrow>
          f\<lparr>uf_status := COMPLETED, uf_progress := 100,
            uf_result := (case analyzeResume e i (uf_file currentFile) ctx of
                            Inr data \<Rightarrow> Some data | Inl err \<Rightarrow> None)\<rparr>)"

text \<open>The events of the turn of the item at index \<open>i\<close>, whose status on the page
  is \<open>st\<close> when the turn starts.\<close>

definition turnEvents ::
  "env \<Rightarrow> job_context \<Rightarrow> stats_update \<Rightarrow> nat \<Rightarrow> upload_file \<Rightarrow> job list \<Rightarrow> status
     \<Rightarrow> event list" where
  "turnEvents e ctx upd i currentFile js st =
     (if uf_status currentFile = COMPLETED then []
      else
        (if i > 0 then [Throttle 3000] else []) @
        [Transition i st READING, Transition i READING PARSING, AnalysisCall i] @
        (case failure e ctx upd i currentFile js of
           None \<Rightarrow> [Transition i PARSING COMPLETED]
         | Some err \<Rightarrow>
             Transition i PARSING ERROR #
             (case msg_or_unknown err of
                Inl t \<Rightarrow> []
              | Inr m \<Rightarrow>
                  [ErrorShown (''Failed to analyze '' @ uf_name currentFile @ '': '' @ m)])))"

text \<open>The error that escapes the turn of the item at index \<open>i\<close>, if any: the one
  thrown by the \<^verbatim>\<open>catch\<close> when the caught value has no properties.\<close>

definition escaping ::
  "env \<Rightarrow> job_context \<Rightarrow> stats_update \<Rightarrow> nat \<Rightarrow> upload_file \<Rightarrow> job list
     \<Rightarrow> js_error option" where
  "escaping e ctx upd i currentFile js =
     (if uf_status currentFile = COMPLETED then None
      else
        (case failure e ctx upd i currentFile js of
           None \<Rightarrow> None
         | Some err \<Rightarrow> (case msg_or_unknown err of Inl t \<Rightarrow> Some t | Inr m \<Rightarrow> None)))"

text \<open>A score within the interval from 0 to 100.\<close>

fun inRange :: "jsval \<Rightarrow> bool" where
  "inRange (JNum r) = (0 \<le> r \<and> r \<le> 100)"
| "inRange _ = False"

section \<open>What the loop leaves behind\<close>

text \<open>
  The queue, the new records, the events and the escaping error after the turns of
  the items \<open>fs\<close>, the first of which has index \<open>i\<close>, for a counter update whose
  success does not depend on the store (so that the empty store stands for any).
  The items after a turn that an error escapes are left as they are. They are shown
  below to be what \<open>loop\<close> leaves in the world.
\<close>

fun outcomes :: "env \<Rightarrow> job_context \<Rightarrow> stats_update \<Rightarrow> nat \<Rightarrow> upload_file list \<Rightarrow> upload_file list" where
  "outcomes e ctx upd i [] = []"
| "outcomes e ctx upd i (f # fs) =
     (if uf_status f = COMPLETED then f else final e ctx upd i f [] f) #
     (if escaping e ctx upd i f [] = None then outcomes e ctx upd (Suc i) fs else fs)"

fun loopRecords ::
  "env \<Rightarrow> job_context \<Rightarrow> string \<Rightarrow> bool \<Rightarrow> stats_update \<Rightarrow> nat \<Rightarrow> upload_file list
     \<Rightarrow> candidate list" where
  "loopRecords e ctx jid rs upd i [] = []"
| "loopRecords e ctx jid rs upd i (f # fs) =
     (if uf_status f = COMPLETED then []
      else (case inserted e ctx i f of
              None \<Rightarrow> []
            | Some (data, b) \<Rightarrow> [recordOf e ctx jid rs i f data b])) @
     (if escaping e ctx upd i f [] = None then loopRecords e ctx jid rs upd (Suc i) fs else [])"

fun loopEvents :: "env \<Rightarrow> job_context \<Rightarrow> stats_update \<Rightarrow> nat \<Rightarrow> upload_file list \<Rightarrow> event list" where
  "loopEvents e ctx upd i [] = []"
| "loopEvents e ctx upd i (f # fs) =
     turnEvents e ctx upd i f [] (uf_status f) @
     (if escaping e ctx upd i f [] = None then loopEvents e ctx upd (Suc i) fs else [])"

fun loopEscape ::
  "env \<Rightarrow> job_context \<Rightarrow> stats_update \<Rightarrow> nat \<Rightarrow> upload_file list \<Rightarrow> js_error option" where
  "loopEscape e ctx upd i [] = None"
| "loopEscape e ctx upd i (f # fs) =
     (case escaping e ctx upd i f [] of
        None \<Rightarrow> loopEscape e ctx upd (Suc i) fs
      | Some t \<Rightarrow> Some t)"

text \<open>The event of the outer \<^verbatim>\<open>catch\<close> for an error that escaped the loop.\<close>

definition catchEvents :: "js_error option \<Rightarrow> event list" where
  "catchEvents r =
     (case r of
        None \<Rightarrow> []
      | Some t \<Rightarrow>
          (case msg_or_unknown t of
             Inl t' \<Rightarrow> []
           | Inr m \<Rightarrow> [ErrorShown (''Analysis failed: '' @ m)]))"

text \<open>No pending item of the queue fails with a thrown \<^verbatim>\<open>null\<close> or \<^verbatim>\<open>undefined\<close>.\<close>

definition noNullish :: "env \<Rightarrow> job_context \<Rightarrow> stats_update \<Rightarrow> upload_file list \<Rightarrow> bool" where
  "noNullish e ctx upd fs =
     (\<forall>k < length fs. uf_status (fs ! k) \<noteq> COMPLETED \<longrightarrow>
        failure e ctx upd k (fs ! k) [] \<noteq> Some ThrownNullish)"

section \<open>Concrete inputs\<close>

text \<open>A resume of a given size, queued under an id with a status.\<close>

definition resume :: "string \<Rightarrow> nat \<Rightarrow> js_file" where
  "resume n sz = \<lparr>file_name = n, file_size = sz, file_type = ''application/pdf''\<rparr>"

definition item :: "string \<Rightarrow> string \<Rightarrow> nat \<Rightarrow> status \<Rightarrow> upload_file" where
  "item u n sz st =
     \<lparr>uf_id = u, uf_file = resume n sz, uf_name = n, uf_size = ''0.0 MB'', uf_status = st,
      uf_progress = (if st = COMPLETED then 100 else 0), uf_result = None\<rparr>"

text \<open>A stored job with no applicants yet.\<close>

definition job1 :: job where
  "job1 =
     \<lparr>job_id = ''j1'', job_title = ''Backend Engineer'', job_department = ''Engineering'',
      job_location = Some ''Berlin'', job_type = ''Full-time'', job_status = ''Active'',
      applicantsCount = Some 0, matchesCount = Some 0,
      job_skills = Some [''Go'', ''SQL''], job_description = None\<rparr>"

text \<open>A reply of the analysis service with a given overall score.\<close>

definition scored :: "rat \<Rightarrow> jsval" where
  "scored r =
     JObj [(''candidateName'', JStr ''Ada Lovelace''), (''currentRole'', JStr ''Engineer''),
           (''matchScore'', JNum r), (''jdMatchScore'', JNum 70),
           (''qualificationMatchScore'', JNum 60), (''resumeMatchScore'', JNum 50)]"

text \<open>Collaborators that all succeed; every reply has the overall score 91, and
  the extraction of a job description fails.\<close>

definition env0 :: env where
  "env0 =
     \<lparr>apiKey = True,
      readAsDataURL = (\<lambda>f. Inr ''data:application/pdf;base64,QUJD''),
      reply = (\<lambda>i. Inr (scored 91)),
      numberOf = (\<lambda>v. None),
      now = (\<lambda>i. 1000 + i),
      today = (\<lambda>i. ''Nov 2, 2026''),
      candidatesInsertOne = (\<lambda>i. None),
      jobsUpdateOne = (\<lambda>i. None),
      jobsRefetch = (\<lambda>i. None),
      jobsFind = None,
      jobsInsertOne = None,
      extractJobDetails = (\<lambda>f. Inl (Thrown (Some ''unreadable''))),
      jobNow = ''1000''\<rparr>"

text \<open>The page with a queue of files, the job \<open>j1\<close> selected and stored, and nothing
  persisted yet.\<close>

definition world0 :: "upload_file list \<Rightarrow> world" where
  "world0 fs =
     \<lparr>files = fs, selectedJobId = ''j1'', isAnalyzing = False, errorMsg = None, jobs = [job1],
      jobSource = Database, parsedJd = None, jdSource = Database, jdFile = None,
      isExtractingJd = False, db_jobs = [job1], db_candidates = [], trace = []\<rparr>"

text \<open>The same page with an uploaded job description as the source of the job.\<close>

definition uploadWorld :: "upload_file list \<Rightarrow> world" where
  "uploadWorld fs = (world0 fs)\<lparr>jdSource := Upload, jdFile := Some (resume ''jd.pdf'' 10)\<rparr>"

section \<open>One turn of the loop\<close>

text \<open>The inner \<^verbatim>\<open>try\<close>, field by field.\<close>

lemma tryItem_result:
  "snd (tryItem e ctx jid rs upd i cf w) = failure e ctx upd i cf (db_jobs w)"
  by (auto simp add: tryItem_def failure_def Let_def setStatus_def setProgress_def
           split: sum.splits option.splits)

lemma tryItem_candidates:
  "db_candidates (fst (tryItem e ctx jid rs upd i cf w)) =
     db_candidates w @ (case inserted e ctx i cf of None \<Rightarrow> []
                        | Some (data, b) \<Rightarrow> [recordOf e ctx jid rs i cf data b])"
  by (simp add: tryItem_def inserted_def recordOf_def Let_def setStatus_def setProgress_def
        setCompleted_def insertOne_def split: sum.splits option.splits)

lemma tryItem_jobs:
  "db_jobs (fst (tryItem e ctx jid rs upd i cf w)) =
     (case inserted e ctx i cf of
        None \<Rightarrow> db_jobs w
      | Some (data, b) \<Rightarrow>
          (case upd i (number_or_0 (numberOf e) (field data ''matchScore'')) (db_jobs w) of
             Inl err \<Rightarrow> db_jobs w | Inr js \<Rightarrow> js))"
  by (auto simp add: tryItem_def inserted_def Let_def setStatus_def setProgress_def
        setCompleted_def split: sum.splits option.splits)

lemma tryItem_trace:
  "i < length (files w) \<Longrightarrow>
   trace (fst (tryItem e ctx jid rs upd i cf w)) =
     trace w @ [Transition i (uf_status (files w ! i)) PARSING, AnalysisCall i] @
     (case failure e ctx upd i cf (db_jobs w) of None \<Rightarrow> [Transition i PARSING COMPLETED]
      | Some err \<Rightarrow> [])"
  by (auto simp add: tryItem_def failure_def Let_def setStatus_def setProgress_def
        setCompleted_def split: sum.splits option.splits)

lemma tryItem_files:
  "i < length (files w) \<Longrightarrow>
   files (fst (tryItem e ctx jid rs upd i cf w)) =
     (files w)[i := (case failure e ctx upd i cf (db_jobs w) of
                       None \<Rightarrow> final e ctx upd i cf (db_jobs w) (files w ! i)
                     | Some err \<Rightarrow>
                         (files w ! i)\<lparr>uf_status := PARSING,
                           uf_progress := (case analyzeResume e i (uf_file cf) ctx of
                                             Inl err \<Rightarrow> 30
                                           | Inr data \<Rightarrow> if nullish data then 30 else 80)\<rparr>)]"
  by (auto simp add: tryItem_def failure_def final_def Let_def setStatus_def setProgress_def
        setCompleted_def split: sum.splits option.splits)

lemma iteration_alt:
  "iteration e ctx jid rs upd i cf w =
     (if uf_status cf = COMPLETED then (w, None)
      else
        (case snd (tryItem e ctx jid rs upd i cf (setStatus i READING 10 (throttle i w))) of
           None \<Rightarrow> (fst (tryItem e ctx jid rs upd i cf (setStatus i READING 10 (throttle i w))), None)
         | Some err \<Rightarrow>
             (case msg_or_unknown err of
                Inl t \<Rightarrow>
                  (setStatus i ERROR 0
                     (fst (tryItem e ctx jid rs upd i cf (setStatus i READING 10 (throttle i w)))),
                   Some t)
              | Inr m \<Rightarrow>
                  (setErrorMsg (''Failed to analyze '' @ uf_name cf @ '': '' @ m)
                     (setStatus i ERROR 0
                        (fst (tryItem e ctx jid rs upd i cf
                                (setStatus i READING 10 (throttle i w))))),
                   None))))"
  by (simp add: iteration_def Let_def split: prod.splits option.splits sum.splits)

lemma throttle_simps [simp]:
  "db_jobs (throttle i w) = db_jobs w"
  "db_candidates (throttle i w) = db_candidates w"
  "files (throttle i w) = files w"
  "trace (throttle i w) = trace w @ (if i > 0 then [Throttle 3000] else [])"
  by (simp_all add: throttle_def)

lemma setStatus_simps [simp]:
  "db_jobs (setStatus i st pr w) = db_jobs w"
  "db_candidates (setStatus i st pr w) = db_candidates w"
  "length (files (setStatus i st pr w)) = length (files w)"
  "files (setStatus i st pr w) = (files w)[i := (files w ! i)\<lparr>uf_status := st, uf_progress := pr\<rparr>]"
  "i < length (files w) \<Longrightarrow> trace (setStatus i st pr w) = trace w @ [Transition i (uf_status (files w ! i)) st]"
  by (simp_all add: setStatus_def)

lemma setErrorMsg_simps [simp]:
  "db_jobs (setErrorMsg m w) = db_jobs w"
  "db_candidates (setErrorMsg m w) = db_candidates w"
  "files (setErrorMsg m w) = files w"
  "trace (setErrorMsg m w) = trace w @ [ErrorShown m]"
  by (simp_all add: setErrorMsg_def)

lemma tryItem_length [simp]:
  "length (files (fst (tryItem e ctx jid rs upd i cf w))) = length (files w)"
  by (simp add: tryItem_def Let_def setStatus_def setProgress_def setCompleted_def
        split: sum.splits option.splits)

lemma iteration_escape:
  "snd (iteration e ctx jid rs upd i cf w) = escaping e ctx upd i cf (db_jobs w)"
  by (simp add: iteration_alt tryItem_result escaping_def split: option.splits sum.splits)

lemma iteration_files:
  "i < length (files w) \<Longrightarrow>
   files (fst (iteration e ctx jid rs upd i cf w)) =
     (if uf_status cf = COMPLETED then files w
      else (files w)[i := final e ctx upd i cf (db_jobs w) (files w ! i)])"
  by (auto simp add: iteration_alt tryItem_result tryItem_files final_def failure_def
        split: option.splits sum.splits)

lemma tryItem_status_failed:
  "i < length (files w) \<Longrightarrow> failure e ctx upd i cf (db_jobs w) = Some err \<Longrightarrow>
   uf_status (files (fst (tryItem e ctx jid rs upd i cf w)) ! i) = PARSING"
  by (simp add: tryItem_files)

lemma iteration_trace:
  assumes "i < length (files w)"
  shows "trace (fst (iteration e ctx jid rs upd i cf w)) =
     trace w @ turnEvents e ctx upd i cf (db_jobs w) (uf_status (files w ! i))"
proof (cases "uf_status cf = COMPLETED")
  case True
  then show ?thesis by (simp add: iteration_alt turnEvents_def)
next
  case False
  let ?w2 = "setStatus i READING 10 (throttle i w)"
  let ?w3 = "fst (tryItem e ctx jid rs upd i cf ?w2)"
  have len: "i < length (files ?w2)" using assms by simp
  have tr2: "trace ?w2 = trace w @ (if i > 0 then [Throttle 3000] else []) @
               [Transition i (uf_status (files w ! i)) READING]"
    using assms by simp
  have st2: "uf_status (files ?w2 ! i) = READING" using assms by simp
  have j2: "db_jobs ?w2 = db_jobs w" by simp
  have res: "snd (tryItem e ctx jid rs upd i cf ?w2) = failure e ctx upd i cf (db_jobs w)"
    by (simp add: tryItem_result)
  have t: "trace ?w3 = trace ?w2 @ [Transition i READING PARSING, AnalysisCall i] @
             (case failure e ctx upd i cf (db_jobs w) of
                None \<Rightarrow> [Transition i PARSING COMPLETED] | Some err \<Rightarrow> [])"
    using tryItem_trace [OF len, of e ctx jid rs upd cf] st2 j2 by simp
  show ?thesis
  proof (cases "failure e ctx upd i cf (db_jobs w)")
    case None
    have "fst (iteration e ctx jid rs upd i cf w) = ?w3"
      using False res None by (simp add: iteration_alt)
    then show ?thesis using False None t tr2 by (simp add: turnEvents_def)
  next
    case (Some err)
    have len3: "i < length (files ?w3)" using len by simp
    have st3: "uf_status (files ?w3 ! i) = PARSING"
      using tryItem_status_failed [OF len, of e ctx upd cf err jid rs] Some j2 by simp
    have t4: "trace (setStatus i ERROR 0 ?w3) = trace ?w3 @ [Transition i PARSING ERROR]"
      using len3 st3 by (simp add: setStatus_def)
    show ?thesis
    proof (cases "msg_or_unknown err")
      case (Inl terr)
      have "fst (iteration e ctx jid rs upd i cf w) = setStatus i ERROR 0 ?w3"
        using False res Some Inl by (simp add: iteration_alt)
      then show ?thesis using False Some Inl t tr2 t4 by (simp add: turnEvents_def)
    next
      case (Inr m)
      have "fst (iteration e ctx jid rs upd i cf w) =
          setErrorMsg (''Failed to analyze '' @ uf_name cf @ '': '' @ m) (setStatus i ERROR 0 ?w3)"
        using False res Some Inr by (simp add: iteration_alt)
      then show ?thesis using False Some Inr t tr2 t4 by (simp add: turnEvents_def)
    qed
  qed
qed

lemma iteration_candidates:
  "db_candidates (fst (iteration e ctx jid rs upd i cf w)) =
     db_candidates w @
     (if uf_status cf = COMPLETED then []
      else (case inserted e ctx i cf of None \<Rightarrow> []
            | Some (data, b) \<Rightarrow> [recordOf e ctx jid rs i cf data b]))"
  by (simp add: iteration_alt tryItem_candidates split: option.splits sum.splits)

lemma iteration_jobs:
  "db_jobs (fst (iteration e ctx jid rs upd i cf w)) =
     (if uf_status cf = COMPLETED then db_jobs w
      else (case inserted e ctx i cf of
              None \<Rightarrow> db_jobs w
            | Some (data, b) \<Rightarrow>
                (case upd i (number_or_0 (numberOf e) (field data ''matchScore'')) (db_jobs w) of
                   Inl err \<Rightarrow> db_jobs w | Inr js \<Rightarrow> js)))"
  by (simp add: iteration_alt tryItem_jobs split: option.splits sum.splits)

lemma iteration_length [simp]:
  "length (files (fst (iteration e ctx jid rs upd i cf w))) = length (files w)"
  by (simp add: iteration_alt split: option.splits sum.splits)

lemma failure_blind:
  "storeBlind upd \<Longrightarrow> failure e ctx upd i cf js = failure e ctx upd i cf []"
proof -
  assume "storeBlind upd"
  then have "\<And>ms. thrown (upd i ms js) = thrown (upd i ms [])"
    unfolding storeBlind_def by blast
  then show ?thesis by (simp add: failure_def split: sum.splits option.splits)
qed

lemma escaping_blind:
  "storeBlind upd \<Longrightarrow> escaping e ctx upd i cf js = escaping e ctx upd i cf []"
  using failure_blind [of upd e ctx i cf js] by (simp add: escaping_def)

section \<open>The loop\<close>

lemma loop_Cons:
  "loop e ctx jid rs upd i (f # fs) w =
     (if snd (iteration e ctx jid rs upd i f w) = None
      then loop e ctx jid rs upd (Suc i) fs (fst (iteration e ctx jid rs upd i f w))
      else iteration e ctx jid rs upd i f w)"
  by (cases "iteration e ctx jid rs upd i f w") (auto split: option.splits)

lemma loop_escape:
  "storeBlind upd \<Longrightarrow> snd (loop e ctx jid rs upd i fs w) = loopEscape e ctx upd i fs"
proof (induction fs arbitrary: i w)
  case Nil
  then show ?case by simp
next
  case (Cons f fs)
  have esc: "snd (iteration e ctx jid rs upd i f w) = escaping e ctx upd i f []"
    using escaping_blind [OF Cons.prems, of e ctx i f "db_jobs w"] by (simp add: iteration_escape)
  show ?case
    using Cons.IH [OF Cons.prems] esc
    by (simp only: loop_Cons loopEscape.simps split: option.splits if_splits) auto
qed

lemma loop_candidates:
  "storeBlind upd \<Longrightarrow>
   db_candidates (fst (loop e ctx jid rs upd i fs w)) =
     db_candidates w @ loopRecords e ctx jid rs upd i fs"
proof (induction fs arbitrary: i w)
  case Nil
  then show ?case by simp
next
  case (Cons f fs)
  have esc: "snd (iteration e ctx jid rs upd i f w) = escaping e ctx upd i f []"
    using escaping_blind [OF Cons.prems, of e ctx i f "db_jobs w"] by (simp add: iteration_escape)
  show ?case
    using Cons.IH [OF Cons.prems, of "Suc i" "fst (iteration e ctx jid rs upd i f w)"] esc
    by (simp add: loop_Cons iteration_candidates del: loop.simps)
qed

lemma loop_files:
  "storeBlind upd \<Longrightarrow> files w = pre @ fs \<Longrightarrow> length pre = i \<Longrightarrow>
   files (fst (loop e ctx jid rs upd i fs w)) = pre @ outcomes e ctx upd i fs"
proof (induction fs arbitrary: i w pre)
  case Nil
  then show ?case by simp
next
  case (Cons f fs)
  have i: "i < length (files w)" using Cons.prems by simp
  have nth: "files w ! i = f" using Cons.prems by (simp add: nth_append)
  let ?f' = "if uf_status f = COMPLETED then f else final e ctx upd i f [] f"
  have esc: "snd (iteration e ctx jid rs upd i f w) = escaping e ctx upd i f []"
    using escaping_blind [OF Cons.prems(1), of e ctx i f "db_jobs w"] by (simp add: iteration_escape)
  have fl: "files (fst (iteration e ctx jid rs upd i f w)) = (pre @ [?f']) @ fs"
    using Cons.prems nth failure_blind [OF Cons.prems(1), of e ctx i f "db_jobs w"]
    by (simp add: iteration_files [OF i] list_update_append final_def)
  show ?case
  proof (cases "escaping e ctx upd i f [] = None")
    case True
    from Cons.IH [OF Cons.prems(1) fl] Cons.prems(3) True esc show ?thesis
      by (simp add: loop_Cons del: loop.simps)
  next
    case False
    then obtain t where "escaping e ctx upd i f [] = Some t" by auto
    with esc fl show ?thesis by (simp add: loop_Cons del: loop.simps)
  qed
qed

lemma loop_trace:
  "storeBlind upd \<Longrightarrow> files w = pre @ fs \<Longrightarrow> length pre = i \<Longrightarrow>
   trace (fst (loop e ctx jid rs upd i fs w)) = trace w @ loopEvents e ctx upd i fs"
proof (induction fs arbitrary: i w pre)
  case Nil
  then show ?case by simp
next
  case (Cons f fs)
  have i: "i < length (files w)" using Cons.prems by simp
  have nth: "files w ! i = f" using Cons.prems by (simp add: nth_append)
  let ?f' = "if uf_status f = COMPLETED then f else final e ctx upd i f [] f"
  have esc: "snd (iteration e ctx jid rs upd i f w) = escaping e ctx upd i f []"
    using escaping_blind [OF Cons.prems(1), of e ctx i f "db_jobs w"] by (simp add: iteration_escape)
  have fl: "files (fst (iteration e ctx jid rs upd i f w)) = (pre @ [?f']) @ fs"
    using Cons.prems nth failure_blind [OF Cons.prems(1), of e ctx i f "db_jobs w"]
    by (simp add: iteration_files [OF i] list_update_append final_def)
  have tr: "trace (fst (iteration e ctx jid rs upd i f w)) =
              trace w @ turnEvents e ctx upd i f [] (uf_status f)"
    using nth failure_blind [OF Cons.prems(1), of e ctx i f "db_jobs w"]
    by (simp add: iteration_trace [OF i] turnEvents_def)
  show ?case
  proof (cases "escaping e ctx upd i f [] = None")
    case True
    from Cons.IH [OF Cons.prems(1) fl] Cons.prems(3) True esc tr show ?thesis
      by (simp add: loop_Cons del: loop.simps)
  next
    case False
    then obtain t where "escaping e ctx upd i f [] = Some t" by auto
    with esc tr show ?thesis by (simp add: loop_Cons del: loop.simps)
  qed
qed

section \<open>Removal from the queue\<close>

text \<open>
  C9 (as stated, refuted). The claim says that \<^verbatim>\<open>removeItem(id)\<close> is a no-op on an item
  that is \<open>COMPLETED\<close>. \<open>removeFile\<close> filters by id alone: a queue holding one completed
  item with id \<open>a\<close> is empty after \<open>removeFile a\<close>.
\<close>

theorem removeFile_completed_counterexample:
  "uf_status (item ''a'' ''cv.pdf'' 10 COMPLETED) = COMPLETED \<and>
   item ''a'' ''cv.pdf'' 10 COMPLETED \<notin> set (removeFile ''a'' [item ''a'' ''cv.pdf'' 10 COMPLETED])"
  by (simp add: removeFile_def item_def)

text \<open>
  C9 (amended). \<open>removeFile i\<close> deletes every item whose id is \<open>i\<close>, whatever its
  status, and keeps all the other items, each as often as it occurs and in their
  order: the result is the queue read from its head, with an item dropped when its
  id is \<open>i\<close> and kept otherwise.
\<close>

theorem removeFile_by_id:
  "(\<forall>f \<in> set (removeFile i prev). uf_id f \<noteq> i) \<and>
   (\<forall>f \<in> set prev. uf_id f \<noteq> i \<longrightarrow> f \<in> set (removeFile i prev)) \<and>
   subseq (removeFile i prev) prev \<and>
   removeFile i [] = [] \<and>
   (\<forall>f fs. uf_id f = i \<longrightarrow> removeFile i (f # fs) = removeFile i fs) \<and>
   (\<forall>f fs. uf_id f \<noteq> i \<longrightarrow> removeFile i (f # fs) = f # removeFile i fs) \<and>
   length (removeFile i prev) + length (filter (\<lambda>f. uf_id f = i) prev) = length prev"
proof -
  have "length (filter (\<lambda>f. uf_id f \<noteq> i) prev) + length (filter (\<lambda>f. uf_id f = i) prev) =
          length prev"
    using sum_length_filter_compl [of "\<lambda>f. uf_id f \<noteq> i" prev] by simp
  then show ?thesis by (simp add: removeFile_def)
qed

theorem removeFile_by_id_witness:
  "removeFile ''a''
     [item ''b'' ''x.pdf'' 10 READY, item ''a'' ''cv.pdf'' 10 COMPLETED,
      item ''b'' ''x.pdf'' 10 READY] =
     [item ''b'' ''x.pdf'' 10 READY, item ''b'' ''x.pdf'' 10 READY]"
proof -
  let ?a = "item ''a'' ''cv.pdf'' 10 COMPLETED" and ?b = "item ''b'' ''x.pdf'' 10 READY"
  have a: "uf_id ?a = ''a''" and b: "uf_id ?b \<noteq> ''a''" by (simp_all add: item_def)
  note T = removeFile_by_id [of "''a''" "[]"]
  note nil = T [THEN conjunct2, THEN conjunct2, THEN conjunct2, THEN conjunct1]
  note drop = T [THEN conjunct2, THEN conjunct2, THEN conjunct2, THEN conjunct2, THEN conjunct1,
                 THEN spec, THEN spec, THEN mp, OF a]
  note keep = T [THEN conjunct2, THEN conjunct2, THEN conjunct2, THEN conjunct2, THEN conjunct2,
                 THEN conjunct1, THEN spec, THEN spec, THEN mp, OF b]
  show ?thesis by (simp only: keep drop nil)
qed

section \<open>Fallbacks of the record\<close>

lemma strip_ext_extension:
  "ext \<noteq> [] \<Longrightarrow> \<forall>d \<in> set ext. d \<noteq> CHR ''.'' \<and> d \<noteq> CHR ''/'' \<Longrightarrow>
   strip_ext (base @ CHR ''.'' # ext) = base"
  by (induction base) auto

lemma strip_ext_no_extension:
  "\<not> (\<exists>base ext. s = base @ CHR ''.'' # ext \<and> ext \<noteq> [] \<and>
        (\<forall>d \<in> set ext. d \<noteq> CHR ''.'' \<and> d \<noteq> CHR ''/'')) \<Longrightarrow>
   strip_ext s = s"
proof (induction s)
  case Nil
  then show ?case by simp
next
  case (Cons c cs)
  have no_head: "\<not> (c = CHR ''.'' \<and> cs \<noteq> [] \<and> (\<forall>d \<in> set cs. d \<noteq> CHR ''/'' \<and> d \<noteq> CHR ''.''))"
    using Cons.prems by (metis append_Nil)
  have "\<not> (\<exists>base ext. cs = base @ CHR ''.'' # ext \<and> ext \<noteq> [] \<and>
        (\<forall>d \<in> set ext. d \<noteq> CHR ''.'' \<and> d \<noteq> CHR ''/''))"
    using Cons.prems by (metis append_Cons)
  from Cons.IH [OF this] no_head show ?case by auto
qed

lemma iteration_persists:
  "uf_status cf \<noteq> COMPLETED \<Longrightarrow> inserted e ctx i cf = Some (data, b) \<Longrightarrow>
   db_candidates (fst (iteration e ctx jid rs upd i cf w)) =
     db_candidates w @ [recordOf e ctx jid rs i cf data b]"
  by (simp add: iteration_candidates)

text \<open>
  C10. When the turn of a document persists a record and the reply has no
  candidate name (none, or an empty one), the record's name is the display name
  of the file without its final extension (a dot and the characters after it, when
  there is at least one and none is a dot or a slash), each underscore and hyphen
  turned into a space; a name without such an extension is kept whole. When the
  reply has no current role, the record's role is the title of the job context.
\<close>

theorem fallback_name_and_role:
  assumes "uf_status cf \<noteq> COMPLETED" and "inserted e ctx i cf = Some (data, b)"
  shows
    "db_candidates (fst (iteration e ctx jid rs upd i cf w)) =
       db_candidates w @ [recordOf e ctx jid rs i cf data b] \<and>
     (\<not> truthy (field data ''candidateName'') \<longrightarrow>
        (\<forall>base ext. uf_name cf = base @ CHR ''.'' # ext \<and> ext \<noteq> [] \<and>
             (\<forall>d \<in> set ext. d \<noteq> CHR ''.'' \<and> d \<noteq> CHR ''/'') \<longrightarrow>
           cand_name (recordOf e ctx jid rs i cf data b) =
             JStr (map (\<lambda>x. if x = CHR ''_'' \<or> x = CHR ''-'' then CHR '' '' else x) base)) \<and>
        (\<not> (\<exists>base ext. uf_name cf = base @ CHR ''.'' # ext \<and> ext \<noteq> [] \<and>
               (\<forall>d \<in> set ext. d \<noteq> CHR ''.'' \<and> d \<noteq> CHR ''/'')) \<longrightarrow>
           cand_name (recordOf e ctx jid rs i cf data b) =
             JStr (map (\<lambda>x. if x = CHR ''_'' \<or> x = CHR ''-'' then CHR '' '' else x) (uf_name cf)))) \<and>
     (\<not> truthy (field data ''currentRole'') \<longrightarrow>
        (\<forall>title. ctx_title ctx = Some title \<longrightarrow>
           cand_role (recordOf e ctx jid rs i cf data b) = JStr title))"
proof -
  have name: "\<not> truthy (field data ''candidateName'') \<Longrightarrow>
      cand_name (recordOf e ctx jid rs i cf data b) = JStr (spaces (strip_ext (uf_name cf)))"
    by (simp add: recordOf_def newCandidate_def js_or_def)
  have role: "\<not> truthy (field data ''currentRole'') \<Longrightarrow> ctx_title ctx = Some title \<Longrightarrow>
      cand_role (recordOf e ctx jid rs i cf data b) = JStr title" for title
    by (simp add: recordOf_def newCandidate_def js_or_def)
  show ?thesis
    using iteration_persists [OF assms] name role
    by (auto simp add: strip_ext_extension strip_ext_no_extension spaces_def
          simp del: strip_ext.simps)
qed

theorem fallback_name_and_role_witness:
  "cand_name (recordOf (env0\<lparr>reply := \<lambda>i. Inr (JObj [(''matchScore'', JNum 91)])\<rparr>)
       (context_of_job job1) ''j1'' True 0 (item ''a'' ''john_doe-cv.final.pdf'' 10 READY)
       (JObj [(''matchScore'', JNum 91)]) (JStr ''QUJD'')) = JStr ''john doe cv.final'' \<and>
   cand_role (recordOf (env0\<lparr>reply := \<lambda>i. Inr (JObj [(''matchScore'', JNum 91)])\<rparr>)
       (context_of_job job1) ''j1'' True 0 (item ''a'' ''john_doe-cv.final.pdf'' 10 READY)
       (JObj [(''matchScore'', JNum 91)]) (JStr ''QUJD'')) = JStr ''Backend Engineer''"
proof -
  let ?e = "env0\<lparr>reply := \<lambda>i. Inr (JObj [(''matchScore'', JNum 91)])\<rparr>"
  let ?cf = "item ''a'' ''john_doe-cv.final.pdf'' 10 READY"
  let ?data = "JObj [(''matchScore'', JNum 91)]"
  let ?c = "recordOf ?e (context_of_job job1) ''j1'' True 0 ?cf ?data (JStr ''QUJD'')"
  let ?sp = "\<lambda>x. if x = CHR ''_'' \<or> x = CHR ''-'' then CHR '' '' else x"
  have st: "uf_status ?cf \<noteq> COMPLETED" by (simp add: item_def)
  have ins: "inserted ?e (context_of_job job1) 0 ?cf = Some (?data, JStr ''QUJD'')"
    by (simp add: inserted_def analyzeResume_def fileToBase64_def env0_def context_of_job_def
          job1_def item_def resume_def)
  note T = fallback_name_and_role [OF st ins, of "''j1''" True "updateStats ?e job1" "world0 [?cf]"]
  have no_name: "\<not> truthy (field ?data ''candidateName'')" by simp
  have no_role: "\<not> truthy (field ?data ''currentRole'')" by simp
  have nm: "uf_name ?cf = ''john_doe-cv.final'' @ CHR ''.'' # ''pdf'' \<and> ''pdf'' \<noteq> [] \<and>
            (\<forall>d \<in> set ''pdf''. d \<noteq> CHR ''.'' \<and> d \<noteq> CHR ''/'')"
    by (simp add: item_def)
  have ttl: "ctx_title (context_of_job job1) = Some ''Backend Engineer''"
    by (simp add: context_of_job_def job1_def)
  note name = T [THEN conjunct2, THEN conjunct1, THEN mp, OF no_name, THEN conjunct1,
                 THEN spec, THEN spec, THEN mp, OF nm]
  note role = T [THEN conjunct2, THEN conjunct2, THEN mp, OF no_role, THEN spec, THEN mp, OF ttl]
  from name role show ?thesis by simp
qed

section \<open>The run of \<^verbatim>\<open>pages/ResumeScore.tsx\<close>\<close>

lemma storeBlind_updateStats: "storeBlind (updateStats e job)"
  by (simp add: storeBlind_def updateStats_def split: option.splits)

lemma afterLoop_simps [simp]:
  "files (afterLoop r) = files (fst r)"
  "db_candidates (afterLoop r) = db_candidates (fst r)"
  "db_jobs (afterLoop r) = db_jobs (fst r)"
  "trace (afterLoop r) = trace (fst r) @ catchEvents (snd r)"
  by (cases r; simp add: afterLoop_def outerCatch_def catchEvents_def setErrorMsg_def
        split: option.splits sum.splits)+

lemma startAnalysis_run:
  assumes "selectedJobId w \<noteq> []" and "files w \<noteq> []" and "jobsFind e = None"
    and "find (\<lambda>j. job_id j = selectedJobId w) (db_jobs w) = Some job"
  shows "startAnalysis e w =
     afterLoop (loop e (context_of_job job) (selectedJobId w) True (updateStats e job) 0 (files w)
        (w\<lparr>errorMsg := None, isAnalyzing := True\<rparr>))"
  using assms by (simp add: startAnalysis_def Let_def)

lemma startAnalysis_candidates:
  assumes "selectedJobId w \<noteq> []" and "files w \<noteq> []" and "jobsFind e = None"
    and "find (\<lambda>j. job_id j = selectedJobId w) (db_jobs w) = Some job"
  shows "db_candidates (startAnalysis e w) =
     db_candidates w @
     loopRecords e (context_of_job job) (selectedJobId w) True (updateStats e job) 0 (files w)"
  by (simp add: startAnalysis_run [OF assms] loop_candidates [OF storeBlind_updateStats])

lemma startAnalysis_files:
  assumes "selectedJobId w \<noteq> []" and "files w \<noteq> []" and "jobsFind e = None"
    and "find (\<lambda>j. job_id j = selectedJobId w) (db_jobs w) = Some job"
  shows "files (startAnalysis e w) =
     outcomes e (context_of_job job) (updateStats e job) 0 (files w)"
  using loop_files [OF storeBlind_updateStats, where w = "w\<lparr>errorMsg := None, isAnalyzing := True\<rparr>"
          and pre = "[]" and fs = "files w" and i = 0]
  by (simp add: startAnalysis_run [OF assms])

lemma startAnalysis_trace:
  assumes "selectedJobId w \<noteq> []" and "files w \<noteq> []" and "jobsFind e = None"
    and "find (\<lambda>j. job_id j = selectedJobId w) (db_jobs w) = Some job"
  shows "trace (startAnalysis e w) =
     trace w @ loopEvents e (context_of_job job) (updateStats e job) 0 (files w) @
     catchEvents (loopEscape e (context_of_job job) (updateStats e job) 0 (files w))"
  using loop_trace [OF storeBlind_updateStats, where w = "w\<lparr>errorMsg := None, isAnalyzing := True\<rparr>"
          and pre = "[]" and fs = "files w" and i = 0]
  by (simp add: startAnalysis_run [OF assms] loop_escape [OF storeBlind_updateStats])

lemma startAnalysis_events:
  assumes "selectedJobId w \<noteq> []" and "files w \<noteq> []" and "jobsFind e = None"
    and "find (\<lambda>j. job_id j = selectedJobId w) (db_jobs w) = Some job"
  shows "eventsOf (startAnalysis e) w =
     loopEvents e (context_of_job job) (updateStats e job) 0 (files w) @
     catchEvents (loopEscape e (context_of_job job) (updateStats e job) 0 (files w))"
  by (simp add: eventsOf_def startAnalysis_trace [OF assms])

text \<open>A queue none of whose pending items fails with a thrown \<^verbatim>\<open>null\<close> or
  \<^verbatim>\<open>undefined\<close> is run to its end.\<close>

lemma escaping_None:
  "escaping e ctx upd i f js = None \<longleftrightarrow>
     (uf_status f \<noteq> COMPLETED \<longrightarrow> failure e ctx upd i f js \<noteq> Some ThrownNullish)"
proof (cases "failure e ctx upd i f js")
  case None
  then show ?thesis by (simp add: escaping_def)
next
  case (Some err)
  then show ?thesis by (cases err) (simp_all add: escaping_def msg_or_unknown_def)
qed

lemma loopEscape_None:
  "(\<forall>k < length fs. uf_status (fs ! k) \<noteq> COMPLETED \<longrightarrow>
       failure e ctx upd (i + k) (fs ! k) [] \<noteq> Some ThrownNullish) \<Longrightarrow>
   loopEscape e ctx upd i fs = None"
proof (induction fs arbitrary: i)
  case Nil
  then show ?case by simp
next
  case (Cons f fs)
  from Cons.prems have "escaping e ctx upd i f [] = None"
    by (auto simp add: escaping_None)
  moreover have "\<forall>k < length fs. uf_status (fs ! k) \<noteq> COMPLETED \<longrightarrow>
       failure e ctx upd (Suc i + k) (fs ! k) [] \<noteq> Some ThrownNullish"
    using Cons.prems by force
  ultimately show ?case using Cons.IH [of "Suc i"] by simp
qed

lemma noNullish_loopEscape: "noNullish e ctx upd fs \<Longrightarrow> loopEscape e ctx upd 0 fs = None"
  using loopEscape_None [of fs e ctx upd 0] by (simp add: noNullish_def)

text \<open>The page of the concrete inputs reaches the loop.\<close>

lemma world0_run:
  "selectedJobId (world0 fs) \<noteq> []"
  "jobsFind env0 = None"
  "find (\<lambda>j. job_id j = selectedJobId (world0 fs)) (db_jobs (world0 fs)) = Some job1"
  "files (world0 fs) = fs" "db_candidates (world0 fs) = []" "trace (world0 fs) = []"
  "db_jobs (world0 fs) = [job1]" "selectedJobId (world0 fs) = ''j1''"
  by (simp_all add: world0_def env0_def job1_def)

section \<open>Size policy of the payload\<close>

lemma inserted_encoding:
  "inserted e ctx i cf = Some (data, b) \<Longrightarrow> fileToBase64 e (uf_file cf) = Inr b"
  by (auto simp add: inserted_def split: sum.splits if_splits option.splits)

text \<open>
  C8 (as stated, refuted). The claim says that the payload of the record is non-empty
  if and only if the size is below 1 MiB. For an empty file the reader yields a
  data URL with nothing after the comma: the size 0 is below the threshold and the
  payload of the record persisted by the run is the empty string.
\<close>

theorem payload_empty_file_counterexample:
  "file_size (uf_file (item ''a'' ''empty.pdf'' 0 READY)) < 1048576 \<and>
   map resumeBase64
     (db_candidates
        (startAnalysis (env0\<lparr>readAsDataURL := \<lambda>f. Inr ''data:application/pdf;base64,''\<rparr>)
           (world0 [item ''a'' ''empty.pdf'' 0 READY]))) = [JStr []]"
proof -
  let ?e = "env0\<lparr>readAsDataURL := \<lambda>f. Inr ''data:application/pdf;base64,''\<rparr>"
  let ?cf = "item ''a'' ''empty.pdf'' 0 READY"
  have find: "jobsFind ?e = None" by (simp add: env0_def)
  have ins: "inserted ?e (context_of_job job1) 0 ?cf = Some (scored 91, JStr [])"
    by (simp add: inserted_def analyzeResume_def fileToBase64_def env0_def context_of_job_def
          job1_def item_def resume_def scored_def)
  have "db_candidates (startAnalysis ?e (world0 [?cf])) =
          [recordOf ?e (context_of_job job1) ''j1'' True 0 ?cf (scored 91) (JStr [])]"
    using startAnalysis_candidates [OF world0_run(1) _ find world0_run(3), of "[?cf]"] ins
    by (simp add: world0_run item_def)
  then show ?thesis
    by (simp add: recordOf_def newCandidate_def item_def resume_def)
qed

text \<open>
  C8 (amended). When the turn of a document of size \<open>S\<close> persists a record, the
  payload of the record is the encoding of the document when \<open>S < 1 MiB\<close>
  (1,048,576 bytes) and the empty string otherwise; so, for a document whose
  encoding is not empty, the payload is non-empty if and only if \<open>S < 1 MiB\<close>.
  No other field of the record depends on the size.
\<close>

theorem payload_size_policy:
  assumes "uf_status cf \<noteq> COMPLETED" and "inserted e ctx i cf = Some (data, b)"
  shows
    "db_candidates (fst (iteration e ctx jid rs upd i cf w)) =
       db_candidates w @ [recordOf e ctx jid rs i cf data b] \<and>
     fileToBase64 e (uf_file cf) = Inr b \<and>
     MiB = 1048576 \<and>
     resumeBase64 (recordOf e ctx jid rs i cf data b) =
       (if file_size (uf_file cf) < MiB then b else JStr []) \<and>
     (b \<noteq> JStr [] \<longrightarrow>
        (resumeBase64 (recordOf e ctx jid rs i cf data b) \<noteq> JStr []) =
        (file_size (uf_file cf) < MiB)) \<and>
     (\<forall>sz. (recordOf e ctx jid rs i (cf\<lparr>uf_file := (uf_file cf)\<lparr>file_size := sz\<rparr>\<rparr>) data b)
              \<lparr>resumeBase64 := JStr []\<rparr> =
           (recordOf e ctx jid rs i cf data b)\<lparr>resumeBase64 := JStr []\<rparr>)"
  using iteration_persists [OF assms] inserted_encoding [OF assms(2)]
  by (simp add: recordOf_def newCandidate_def MiB_def)

theorem payload_size_policy_witness:
  "resumeBase64 (recordOf env0 (context_of_job job1) ''j1'' True 0
       (item ''a'' ''cv.pdf'' 1048575 READY) (scored 91) (JStr ''QUJD'')) = JStr ''QUJD'' \<and>
   resumeBase64 (recordOf env0 (context_of_job job1) ''j1'' True 0
       (item ''a'' ''cv.pdf'' 1048576 READY) (scored 91) (JStr ''QUJD'')) = JStr []"
proof -
  have st: "uf_status (item ''a'' ''cv.pdf'' sz READY) \<noteq> COMPLETED" for sz
    by (simp add: item_def)
  have ins: "inserted env0 (context_of_job job1) 0 (item ''a'' ''cv.pdf'' sz READY) =
               Some (scored 91, JStr ''QUJD'')" for sz
    by (simp add: inserted_def analyzeResume_def fileToBase64_def env0_def context_of_job_def
          job1_def item_def resume_def scored_def)
  note small = payload_size_policy [OF st [of 1048575] ins [of 1048575],
                 where jid = "''j1''" and rs = True]
  note large = payload_size_policy [OF st [of 1048576] ins [of 1048576],
                 where jid = "''j1''" and rs = True]
  note pol = small [THEN conjunct2, THEN conjunct2, THEN conjunct2, THEN conjunct1]
             large [THEN conjunct2, THEN conjunct2, THEN conjunct2, THEN conjunct1]
  have "file_size (uf_file (item ''a'' ''cv.pdf'' 1048575 READY)) < MiB"
       "\<not> file_size (uf_file (item ''a'' ''cv.pdf'' 1048576 READY)) < MiB"
    by (simp_all add: item_def resume_def MiB_def)
  with pol show ?thesis by simp
qed

section \<open>Scores of the record\<close>

text \<open>
  C2 (as stated, refuted). The claim says that every score is clamped to the
  interval from 0 to 100 before it is persisted and that a non-numeric value is never
  stored as it is. For a reply with the overall score 150 and the string
  \<^verbatim>\<open>"high"\<close> as first sub-score, the run persists a record with overall score 150
  and first sub-score \<^verbatim>\<open>"high"\<close>.
\<close>

theorem scores_not_clamped_counterexample:
  "map matchScore
     (db_candidates
        (startAnalysis
           (env0\<lparr>reply := \<lambda>i. Inr (JObj [(''matchScore'', JNum 150), (''jdMatchScore'', JStr ''high'')])\<rparr>)
           (world0 [item ''a'' ''cv.pdf'' 10 READY]))) = [150] \<and>
   \<not> (150 :: rat) \<le> 100 \<and>
   map jdMatchScore
     (db_candidates
        (startAnalysis
           (env0\<lparr>reply := \<lambda>i. Inr (JObj [(''matchScore'', JNum 150), (''jdMatchScore'', JStr ''high'')])\<rparr>)
           (world0 [item ''a'' ''cv.pdf'' 10 READY]))) = [JStr ''high'']"
proof -
  let ?data = "JObj [(''matchScore'', JNum 150), (''jdMatchScore'', JStr ''high'')]"
  let ?e = "env0\<lparr>reply := \<lambda>i. Inr ?data\<rparr>"
  let ?cf = "item ''a'' ''cv.pdf'' 10 READY"
  have find: "jobsFind ?e = None" by (simp add: env0_def)
  have ins: "inserted ?e (context_of_job job1) 0 ?cf = Some (?data, JStr ''QUJD'')"
    by (simp add: inserted_def analyzeResume_def fileToBase64_def env0_def context_of_job_def
          job1_def item_def resume_def)
  have num: "numberOf ?e = (\<lambda>v. None)" by (simp add: env0_def)
  have "db_candidates (startAnalysis ?e (world0 [?cf])) =
          [recordOf ?e (context_of_job job1) ''j1'' True 0 ?cf ?data (JStr ''QUJD'')]"
    using startAnalysis_candidates [OF world0_run(1) _ find world0_run(3), of "[?cf]"] ins
    by (simp add: world0_run item_def)
  then show ?thesis
    by (simp add: recordOf_def newCandidate_def number_or_0_def js_or_def num)
qed

text \<open>
  C2 (amended). No score is clamped. When the turn of a document persists a
  record, its overall score is always a number: the reply's \<^verbatim>\<open>matchScore\<close> itself when
  that is a number, and 0 when it is absent or converts to NaN. Each of the three
  sub-scores is stored as the reply gives it when it is truthy, and as 0 otherwise.
  So a score that the reply gives as a number between 0 and 100 is stored unchanged,
  within that interval.
\<close>

theorem scores_stored:
  assumes "uf_status cf \<noteq> COMPLETED" and "inserted e ctx i cf = Some (data, b)"
  shows
    "db_candidates (fst (iteration e ctx jid rs upd i cf w)) =
       db_candidates w @ [recordOf e ctx jid rs i cf data b] \<and>
     (\<forall>r. field data ''matchScore'' = JNum r \<longrightarrow>
          matchScore (recordOf e ctx jid rs i cf data b) = r) \<and>
     (field data ''matchScore'' = JUndefined \<or>
      Number (numberOf e) (field data ''matchScore'') = None \<longrightarrow>
          matchScore (recordOf e ctx jid rs i cf data b) = 0) \<and>
     jdMatchScore (recordOf e ctx jid rs i cf data b) =
       (if truthy (field data ''jdMatchScore'') then field data ''jdMatchScore'' else JNum 0) \<and>
     qualificationMatchScore (recordOf e ctx jid rs i cf data b) =
       (if truthy (field data ''qualificationMatchScore'')
        then field data ''qualificationMatchScore'' else JNum 0) \<and>
     resumeMatchScore (recordOf e ctx jid rs i cf data b) =
       (if truthy (field data ''resumeMatchScore'') then field data ''resumeMatchScore''
        else JNum 0) \<and>
     (inRange (field data ''matchScore'') \<longrightarrow>
        0 \<le> matchScore (recordOf e ctx jid rs i cf data b) \<and>
        matchScore (recordOf e ctx jid rs i cf data b) \<le> 100) \<and>
     (inRange (field data ''jdMatchScore'') \<longrightarrow>
        inRange (jdMatchScore (recordOf e ctx jid rs i cf data b))) \<and>
     (inRange (field data ''qualificationMatchScore'') \<longrightarrow>
        inRange (qualificationMatchScore (recordOf e ctx jid rs i cf data b))) \<and>
     (inRange (field data ''resumeMatchScore'') \<longrightarrow>
        inRange (resumeMatchScore (recordOf e ctx jid rs i cf data b)))"
proof -
  have in_range: "inRange v \<Longrightarrow> inRange (js_or v (JNum 0))" for v
    by (cases v) (simp_all add: js_or_def)
  have ms: "inRange v \<Longrightarrow> 0 \<le> number_or_0 (numberOf e) v \<and> number_or_0 (numberOf e) v \<le> 100" for v
    by (cases v) (simp_all add: number_or_0_def)
  show ?thesis
    using iteration_persists [OF assms] in_range ms
    by (simp add: recordOf_def newCandidate_def number_or_0_def js_or_def)
qed

theorem scores_stored_witness:
  "matchScore (recordOf env0 (context_of_job job1) ''j1'' True 0
       (item ''a'' ''cv.pdf'' 10 READY) (scored 91) (JStr ''QUJD'')) = 91 \<and>
   inRange (jdMatchScore (recordOf env0 (context_of_job job1) ''j1'' True 0
       (item ''a'' ''cv.pdf'' 10 READY) (scored 91) (JStr ''QUJD'')))"
proof -
  let ?cf = "item ''a'' ''cv.pdf'' 10 READY"
  have st: "uf_status ?cf \<noteq> COMPLETED" by (simp add: item_def)
  have ins: "inserted env0 (context_of_job job1) 0 ?cf = Some (scored 91, JStr ''QUJD'')"
    by (simp add: inserted_def analyzeResume_def fileToBase64_def env0_def context_of_job_def
          job1_def item_def resume_def scored_def)
  note T = scores_stored [OF st ins, where jid = "''j1''" and rs = True]
  have f1: "field (scored 91) ''matchScore'' = JNum 91" by (simp add: scored_def)
  have f2: "inRange (field (scored 91) ''jdMatchScore'')" by (simp add: scored_def)
  note a = T [THEN conjunct2, THEN conjunct1, THEN spec, THEN mp, OF f1]
  note b = T [THEN conjunct2, THEN conjunct2, THEN conjunct2, THEN conjunct2, THEN conjunct2,
              THEN conjunct2, THEN conjunct2, THEN conjunct1, THEN mp, OF f2]
  from a b show ?thesis by simp
qed

section \<open>Counting the events of a run\<close>

lemma delays_append [simp]: "delays (xs @ ys) = delays xs + delays ys"
  by (simp add: delays_def)

lemma analysisCalls_append [simp]: "analysisCalls (xs @ ys) = analysisCalls xs + analysisCalls ys"
  by (simp add: analysisCalls_def)

lemma delays_turnEvents:
  "delays (turnEvents e ctx upd i f js st) = (if uf_status f \<noteq> COMPLETED \<and> i > 0 then 1 else 0)"
  by (simp add: turnEvents_def delays_def split: option.splits sum.splits)

lemma analysisCalls_turnEvents:
  "analysisCalls (turnEvents e ctx upd i f js st) = (if uf_status f \<noteq> COMPLETED then 1 else 0)"
  by (simp add: turnEvents_def analysisCalls_def split: option.splits sum.splits)

lemma pending_Cons:
  "pending (f # fs) = (if uf_status f \<noteq> COMPLETED then 1 else 0) + pending fs"
  by (simp add: pending_def)

lemma pending_le: "pending fs \<le> length fs"
  by (simp add: pending_def)

lemma loopEscape_Cons:
  "loopEscape e ctx upd i (f # fs) = None \<longleftrightarrow>
     escaping e ctx upd i f [] = None \<and> loopEscape e ctx upd (Suc i) fs = None"
  by (simp split: option.splits)

lemma delays_loopEvents_Suc:
  "loopEscape e ctx upd (Suc i) fs = None \<Longrightarrow>
   delays (loopEvents e ctx upd (Suc i) fs) = pending fs"
proof (induction fs arbitrary: i)
  case Nil
  then show ?case by (simp add: delays_def pending_def)
next
  case (Cons f fs)
  from Cons.prems have "escaping e ctx upd (Suc i) f [] = None"
    and "loopEscape e ctx upd (Suc (Suc i)) fs = None"
    by (simp_all add: loopEscape_Cons del: loopEscape.simps)
  with Cons.IH [of "Suc i"] show ?case by (simp add: delays_turnEvents pending_Cons)
qed

lemma delays_loopEvents_0:
  "loopEscape e ctx upd 0 fs = None \<Longrightarrow>
   delays (loopEvents e ctx upd 0 fs) = pendingAfterFirst fs"
proof (cases fs)
  case Nil
  then show ?thesis by (simp add: delays_def pendingAfterFirst_def pending_def)
next
  case (Cons f fs')
  assume "loopEscape e ctx upd 0 fs = None"
  with Cons have "escaping e ctx upd 0 f [] = None" and "loopEscape e ctx upd (Suc 0) fs' = None"
    by (simp_all add: loopEscape_Cons del: loopEscape.simps)
  with Cons delays_loopEvents_Suc [of e ctx upd 0 fs'] show ?thesis
    by (simp add: delays_turnEvents pendingAfterFirst_def)
qed

lemma analysisCalls_loopEvents:
  "loopEscape e ctx upd i fs = None \<Longrightarrow>
   analysisCalls (loopEvents e ctx upd i fs) = pending fs"
proof (induction fs arbitrary: i)
  case Nil
  then show ?case by (simp add: analysisCalls_def pending_def)
next
  case (Cons f fs)
  from Cons.prems have "escaping e ctx upd i f [] = None"
    and "loopEscape e ctx upd (Suc i) fs = None"
    by (simp_all add: loopEscape_Cons del: loopEscape.simps)
  with Cons.IH [of "Suc i"] show ?case by (simp add: analysisCalls_turnEvents pending_Cons)
qed

lemma loopEvents_turn:
  "loopEscape e ctx upd i fs = None \<Longrightarrow> k < length fs \<Longrightarrow>
   \<exists>before after. loopEvents e ctx upd i fs =
      before @ turnEvents e ctx upd (i + k) (fs ! k) [] (uf_status (fs ! k)) @ after"
proof (induction fs arbitrary: i k)
  case Nil
  then show ?case by simp
next
  case (Cons f fs)
  from Cons.prems(1) have esc: "escaping e ctx upd i f [] = None"
    and rest: "loopEscape e ctx upd (Suc i) fs = None"
    by (simp_all add: loopEscape_Cons del: loopEscape.simps)
  show ?case
  proof (cases k)
    case 0
    then show ?thesis by (auto intro: exI [of _ "[]"])
  next
    case (Suc k')
    with Cons.prems have "k' < length fs" by simp
    from Cons.IH [OF rest this] obtain before after where
      "loopEvents e ctx upd (Suc i) fs =
         before @ turnEvents e ctx upd (Suc i + k') (fs ! k') [] (uf_status (fs ! k')) @ after"
      by blast
    then have "loopEvents e ctx upd i (f # fs) =
         (turnEvents e ctx upd i f [] (uf_status f) @ before) @
         turnEvents e ctx upd (i + k) ((f # fs) ! k) [] (uf_status ((f # fs) ! k)) @ after"
      using Suc esc by simp
    then show ?thesis by blast
  qed
qed

lemma pending_all: "pending fs = length fs \<Longrightarrow> pendingAfterFirst fs = length fs - 1"
proof (cases fs)
  case Nil
  then show ?thesis by (simp add: pendingAfterFirst_def pending_def)
next
  case (Cons f fs')
  assume "pending fs = length fs"
  with Cons pending_le [of fs'] have "pending fs' = length fs'"
    by (simp add: pending_Cons split: if_splits)
  with Cons show ?thesis by (simp add: pendingAfterFirst_def)
qed

lemma failure_env0:
  "failure env0 (context_of_job job1) (updateStats env0 job1) k f js = None"
  by (simp add: failure_def analyzeResume_def fileToBase64_def env0_def context_of_job_def
        job1_def scored_def updateStats_def)

lemma noNullish_env0: "noNullish env0 (context_of_job job1) (updateStats env0 job1) fs"
  by (simp add: noNullish_def failure_env0)

text \<open>
  C3 (as stated, refuted). The claim says that a batch of \<open>N\<close> items waits for the
  delay exactly \<open>N - 1\<close> times, also when completed items are skipped. A queue of
  two items, the first left in \<open>ERROR\<close> and the second \<open>COMPLETED\<close> by an earlier run,
  is run again with no delay at all: the skip comes before the throttle.
\<close>

theorem delays_skipped_item_counterexample:
  "length (files (world0 [item ''a'' ''a.pdf'' 10 ERROR, item ''b'' ''b.pdf'' 10 COMPLETED])) - 1 = 1 \<and>
   delays (eventsOf (startAnalysis env0)
             (world0 [item ''a'' ''a.pdf'' 10 ERROR, item ''b'' ''b.pdf'' 10 COMPLETED])) = 0"
proof -
  let ?fs = "[item ''a'' ''a.pdf'' 10 ERROR, item ''b'' ''b.pdf'' 10 COMPLETED]"
  let ?ctx = "context_of_job job1" and ?upd = "updateStats env0 job1"
  have esc: "loopEscape env0 ?ctx ?upd 0 ?fs = None"
    by (rule noNullish_loopEscape [OF noNullish_env0])
  have "eventsOf (startAnalysis env0) (world0 ?fs) = loopEvents env0 ?ctx ?upd 0 ?fs"
    using startAnalysis_events [OF world0_run(1) _ world0_run(2) world0_run(3), of ?fs]
    by (simp only: world0_run esc catchEvents_def) simp
  then have "delays (eventsOf (startAnalysis env0) (world0 ?fs)) = pendingAfterFirst ?fs"
    by (simp only: delays_loopEvents_0 [OF esc])
  moreover have "pendingAfterFirst ?fs = 0"
    by (simp add: pendingAfterFirst_def pending_def item_def)
  ultimately show ?thesis by (simp add: world0_run)
qed

text \<open>
  C3 (amended). In every run that reaches the loop over a queue of \<open>N\<close> items and
  in which no turn fails with a thrown \<^verbatim>\<open>null\<close> or \<^verbatim>\<open>undefined\<close>, the scheduler issues
  one analysis call for each item that is not \<open>COMPLETED\<close> when the run starts, hence
  at most \<open>N\<close>, and waits for the delay of 3000 ms once for each such item that is not
  at the head of the queue, whatever else the collaborators answer; the wait comes
  first in the turn of the item. When no item is \<open>COMPLETED\<close> at the start, these
  are exactly \<open>N - 1\<close> waits. A \<open>COMPLETED\<close> item is skipped without a wait.
\<close>

theorem throttle_and_calls:
  assumes "selectedJobId w \<noteq> []" and "files w \<noteq> []" and "jobsFind e = None"
    and "find (\<lambda>j. job_id j = selectedJobId w) (db_jobs w) = Some job"
    and "noNullish e (context_of_job job) (updateStats e job) (files w)"
  shows
    "analysisCalls (eventsOf (startAnalysis e) w) = pending (files w) \<and>
     analysisCalls (eventsOf (startAnalysis e) w) \<le> length (files w) \<and>
     delays (eventsOf (startAnalysis e) w) = pendingAfterFirst (files w) \<and>
     (pending (files w) = length (files w) \<longrightarrow>
        delays (eventsOf (startAnalysis e) w) = length (files w) - 1) \<and>
     (\<forall>k. 0 < k \<and> k < length (files w) \<and> uf_status (files w ! k) \<noteq> COMPLETED \<longrightarrow>
        (\<exists>before after. eventsOf (startAnalysis e) w =
           before @ [Throttle 3000, Transition k (uf_status (files w ! k)) READING] @ after))"
proof -
  let ?ctx = "context_of_job job" and ?upd = "updateStats e job"
  have esc: "loopEscape e ?ctx ?upd 0 (files w) = None"
    by (rule noNullish_loopEscape [OF assms(5)])
  have ev: "eventsOf (startAnalysis e) w = loopEvents e ?ctx ?upd 0 (files w)"
    using startAnalysis_events [OF assms(1-4)] by (simp add: esc catchEvents_def)
  have order: "\<exists>before after. loopEvents e ?ctx ?upd 0 (files w) =
           before @ [Throttle 3000, Transition k (uf_status (files w ! k)) READING] @ after"
    if k: "0 < k" "k < length (files w)" "uf_status (files w ! k) \<noteq> COMPLETED" for k
  proof -
    from loopEvents_turn [OF esc k(2)] obtain before after where
      "loopEvents e ?ctx ?upd 0 (files w) =
         before @ turnEvents e ?ctx ?upd k (files w ! k) [] (uf_status (files w ! k)) @ after"
      by auto
    with k have "loopEvents e ?ctx ?upd 0 (files w) =
         before @ [Throttle 3000, Transition k (uf_status (files w ! k)) READING] @
         (drop 2 (turnEvents e ?ctx ?upd k (files w ! k) [] (uf_status (files w ! k))) @ after)"
      by (simp add: turnEvents_def)
    then show ?thesis by blast
  qed
  show ?thesis
    using order
    by (simp add: ev analysisCalls_loopEvents [OF esc] delays_loopEvents_0 [OF esc] pending_le
          pending_all)
qed

theorem throttle_and_calls_witness:
  "analysisCalls (eventsOf
     (startAnalysis (env0\<lparr>reply := \<lambda>i. if i = 1 then Inl (Thrown (Some ''quota''))
                                     else Inr (scored 91)\<rparr>))
     (world0 [item ''a'' ''a.pdf'' 10 READY, item ''b'' ''b.pdf'' 10 READY,
              item ''c'' ''c.pdf'' 10 READY])) = 3 \<and>
   delays (eventsOf
     (startAnalysis (env0\<lparr>reply := \<lambda>i. if i = 1 then Inl (Thrown (Some ''quota''))
                                     else Inr (scored 91)\<rparr>))
     (world0 [item ''a'' ''a.pdf'' 10 READY, item ''b'' ''b.pdf'' 10 READY,
              item ''c'' ''c.pdf'' 10 READY])) = 2"
proof -
  let ?e = "env0\<lparr>reply := \<lambda>i. if i = 1 then Inl (Thrown (Some ''quota'')) else Inr (scored 91)\<rparr>"
  let ?fs = "[item ''a'' ''a.pdf'' 10 READY, item ''b'' ''b.pdf'' 10 READY,
              item ''c'' ''c.pdf'' 10 READY]"
  have ne: "files (world0 ?fs) \<noteq> []" by (simp add: world0_run)
  have find: "jobsFind ?e = None" by (simp add: env0_def)
  have "failure ?e (context_of_job job1) (updateStats ?e job1) k f [] \<noteq> Some ThrownNullish" for k f
    by (simp add: failure_def analyzeResume_def fileToBase64_def env0_def context_of_job_def
          job1_def scored_def updateStats_def)
  then have nn: "noNullish ?e (context_of_job job1) (updateStats ?e job1) (files (world0 ?fs))"
    by (simp add: noNullish_def)
  note T = throttle_and_calls [OF world0_run(1) ne find world0_run(3) nn]
  have p: "pending (files (world0 ?fs)) = 3" "pendingAfterFirst (files (world0 ?fs)) = 2"
    by (simp_all add: world0_run pending_def pendingAfterFirst_def item_def)
  from T [THEN conjunct1] T [THEN conjunct2, THEN conjunct2, THEN conjunct1] p
  show ?thesis by simp
qed

section \<open>Transitions into \<open>ERROR\<close>\<close>

lemma error_from_parsing_turn:
  "\<forall>ev \<in> set (turnEvents e ctx upd i f js st). \<forall>k a. ev = Transition k a ERROR \<longrightarrow> a = PARSING"
  by (auto simp add: turnEvents_def split: option.splits if_splits sum.splits)

lemma error_from_parsing_loop:
  "\<forall>ev \<in> set (loopEvents e ctx upd i fs). \<forall>k a. ev = Transition k a ERROR \<longrightarrow> a = PARSING"
proof (induction fs arbitrary: i)
  case Nil
  then show ?case by simp
next
  case (Cons f fs)
  then show ?case using error_from_parsing_turn [of e ctx upd i f "[]" "uf_status f"] by auto
qed

lemma catchEvents_no_transition: "Transition k a b \<notin> set (catchEvents r)"
  by (simp add: catchEvents_def split: option.splits sum.splits)

lemma startAnalysis_no_loop:
  assumes "\<not> (selectedJobId w \<noteq> [] \<and> files w \<noteq> [] \<and> jobsFind e = None \<and>
              find (\<lambda>j. job_id j = selectedJobId w) (db_jobs w) \<noteq> None)"
  shows "Transition k a b \<notin> set (eventsOf (startAnalysis e) w)"
  using assms
  by (auto simp add: startAnalysis_def eventsOf_def setErrorMsg_def outerCatch_def Let_def
        split: option.splits sum.splits)

text \<open>
  C6. In every run of \<^verbatim>\<open>startAnalysis\<close>, every status change into \<open>ERROR\<close> starts in
  \<open>PARSING\<close>: so it starts in \<open>READING\<close> or \<open>PARSING\<close>, and never in \<open>READY\<close> or
  \<open>COMPLETED\<close>.
\<close>

theorem error_only_from_flight:
  "\<forall>k a. Transition k a ERROR \<in> set (eventsOf (startAnalysis e) w) \<longrightarrow>
     (a = READING \<or> a = PARSING) \<and> a \<noteq> READY \<and> a \<noteq> COMPLETED"
proof (cases "selectedJobId w \<noteq> [] \<and> files w \<noteq> [] \<and> jobsFind e = None \<and>
              find (\<lambda>j. job_id j = selectedJobId w) (db_jobs w) \<noteq> None")
  case True
  then obtain job where job: "find (\<lambda>j. job_id j = selectedJobId w) (db_jobs w) = Some job"
    by blast
  from True have pre: "selectedJobId w \<noteq> []" "files w \<noteq> []" "jobsFind e = None" by simp_all
  show ?thesis
    using error_from_parsing_loop [of e "context_of_job job" "updateStats e job" 0 "files w"]
      catchEvents_no_transition
    by (auto simp add: startAnalysis_events [OF pre job])
next
  case False
  from startAnalysis_no_loop [OF this] show ?thesis by auto
qed

theorem error_only_from_flight_witness:
  "eventsOf (startAnalysis (env0\<lparr>reply := \<lambda>i. Inl (Thrown (Some ''quota''))\<rparr>))
     (world0 [item ''a'' ''a.pdf'' 10 READY]) =
     [Transition 0 READY READING, Transition 0 READING PARSING, AnalysisCall 0,
      Transition 0 PARSING ERROR, ErrorShown ''Failed to analyze a.pdf: quota''] \<and>
   (PARSING = READING \<or> PARSING = PARSING) \<and> PARSING \<noteq> READY \<and> PARSING \<noteq> COMPLETED"
proof -
  let ?e = "env0\<lparr>reply := \<lambda>i. Inl (Thrown (Some ''quota''))\<rparr>"
  let ?cf = "item ''a'' ''a.pdf'' 10 READY"
  have find: "jobsFind ?e = None" by (simp add: env0_def)
  have fail: "failure ?e (context_of_job job1) (updateStats ?e job1) 0 ?cf [] =
                Some (Thrown (Some ''quota''))"
    by (simp add: failure_def analyzeResume_def fileToBase64_def env0_def context_of_job_def
          job1_def item_def resume_def)
  have st: "uf_status ?cf = READY" "uf_name ?cf = ''a.pdf''" by (simp_all add: item_def)
  have ev: "eventsOf (startAnalysis ?e) (world0 [?cf]) =
     [Transition 0 READY READING, Transition 0 READING PARSING, AnalysisCall 0,
      Transition 0 PARSING ERROR, ErrorShown ''Failed to analyze a.pdf: quota'']"
    using startAnalysis_events [OF world0_run(1) _ find world0_run(3), of "[?cf]"] fail st
    by (simp add: world0_run turnEvents_def msg_or_unknown_def escaping_def catchEvents_def)
  then have "Transition 0 PARSING ERROR \<in> set (eventsOf (startAnalysis ?e) (world0 [?cf]))"
    by simp
  with error_only_from_flight [of ?e "world0 [?cf]"] ev show ?thesis by blast
qed

section \<open>Failure isolation\<close>

lemma outcomes_length [simp]: "length (outcomes e ctx upd i fs) = length fs"
  by (induction fs arbitrary: i) simp_all

lemma outcomes_nth:
  "loopEscape e ctx upd i fs = None \<Longrightarrow> k < length fs \<Longrightarrow>
   outcomes e ctx upd i fs ! k =
     (if uf_status (fs ! k) = COMPLETED then fs ! k
      else final e ctx upd (i + k) (fs ! k) [] (fs ! k))"
proof (induction fs arbitrary: i k)
  case Nil
  then show ?case by simp
next
  case (Cons f fs)
  from Cons.prems(1) have esc: "escaping e ctx upd i f [] = None"
    and rest: "loopEscape e ctx upd (Suc i) fs = None"
    by (simp_all add: loopEscape_Cons del: loopEscape.simps)
  show ?case
  proof (cases k)
    case 0
    then show ?thesis by simp
  next
    case (Suc k')
    with Cons.prems Cons.IH [OF rest, of k'] esc show ?thesis by simp
  qed
qed

lemma failure_updateStats:
  "failure e ctx (updateStats e job) i f js = failure e ctx (updateStats e job) i f []"
  by (rule failure_blind [OF storeBlind_updateStats])

lemma msg_or_unknown_TypeError: "msg_or_unknown TypeError = Inr typeErrorText"
  by (simp add: msg_or_unknown_def TypeError_def typeErrorText_def)


text \<open>
  A failure whose thrown value has properties is isolated. In a run that reaches the
  loop and in which no turn fails with a thrown \<^verbatim>\<open>null\<close> or \<^verbatim>\<open>undefined\<close>, the fate of
  each item is decided by its own turn alone: an item whose turn fails ends in
  \<open>ERROR\<close> with progress 0 and the message of its failure is shown, an item whose
  turn does not fail ends in \<open>COMPLETED\<close> with progress 100, and an item that was
  \<open>COMPLETED\<close> is left as it was.
\<close>

lemma isolation_of_other_failures:
  assumes "selectedJobId w \<noteq> []" and "files w \<noteq> []" and "jobsFind e = None"
    and "find (\<lambda>j. job_id j = selectedJobId w) (db_jobs w) = Some job"
    and "noNullish e (context_of_job job) (updateStats e job) (files w)"
    and k: "k < length (files w)"
  shows
    "length (files (startAnalysis e w)) = length (files w) \<and>
     (uf_status (files w ! k) = COMPLETED \<longrightarrow> files (startAnalysis e w) ! k = files w ! k) \<and>
     (uf_status (files w ! k) \<noteq> COMPLETED \<longrightarrow>
        (\<forall>js m. failure e (context_of_job job) (updateStats e job) k (files w ! k) js =
                  Some (Thrown m) \<longrightarrow>
           files (startAnalysis e w) ! k = (files w ! k)\<lparr>uf_status := ERROR, uf_progress := 0\<rparr> \<and>
           ErrorShown (''Failed to analyze '' @ uf_name (files w ! k) @ '': '' @
                       str_or m ''Unknown error'')
             \<in> set (eventsOf (startAnalysis e) w)) \<and>
        (\<forall>js. failure e (context_of_job job) (updateStats e job) k (files w ! k) js = None \<longrightarrow>
           uf_status (files (startAnalysis e w) ! k) = COMPLETED \<and>
           uf_progress (files (startAnalysis e w) ! k) = 100))"
proof -
  let ?ctx = "context_of_job job" and ?upd = "updateStats e job"
  let ?f = "files w ! k"
  have esc: "loopEscape e ?ctx ?upd 0 (files w) = None"
    by (rule noNullish_loopEscape [OF assms(5)])
  note fl = startAnalysis_files [OF assms(1-4)]
  have ev: "eventsOf (startAnalysis e) w = loopEvents e ?ctx ?upd 0 (files w)"
    using startAnalysis_events [OF assms(1-4)] by (simp add: esc catchEvents_def)
  note nth = outcomes_nth [OF esc k]
  from loopEvents_turn [OF esc k] obtain before after where turn:
    "loopEvents e ?ctx ?upd 0 (files w) =
       before @ turnEvents e ?ctx ?upd k ?f [] (uf_status ?f) @ after"
    by auto
  show ?thesis
  proof (intro conjI impI allI)
    show "length (files (startAnalysis e w)) = length (files w)" by (simp add: fl)
  next
    assume "uf_status ?f = COMPLETED"
    then show "files (startAnalysis e w) ! k = ?f" by (simp add: fl nth)
  next
    fix js m
    assume p: "uf_status ?f \<noteq> COMPLETED" and "failure e ?ctx ?upd k ?f js = Some (Thrown m)"
    then have f: "failure e ?ctx ?upd k ?f [] = Some (Thrown m)"
      using failure_updateStats [of e ?ctx job k ?f js] by simp
    show "files (startAnalysis e w) ! k = ?f\<lparr>uf_status := ERROR, uf_progress := 0\<rparr>"
      using p f by (simp add: fl nth final_def)
    have "ErrorShown (''Failed to analyze '' @ uf_name ?f @ '': '' @ str_or m ''Unknown error'')
            \<in> set (turnEvents e ?ctx ?upd k ?f [] (uf_status ?f))"
      using p f by (simp add: turnEvents_def msg_or_unknown_def)
    then show "ErrorShown (''Failed to analyze '' @ uf_name ?f @ '': '' @ str_or m ''Unknown error'')
            \<in> set (eventsOf (startAnalysis e) w)"
      by (simp add: ev turn)
  next
    fix js
    assume p: "uf_status ?f \<noteq> COMPLETED" and "failure e ?ctx ?upd k ?f js = None"
    then have f: "failure e ?ctx ?upd k ?f [] = None"
      using failure_updateStats [of e ?ctx job k ?f js] by simp
    show "uf_status (files (startAnalysis e w) ! k) = COMPLETED"
      using p f by (simp add: fl nth final_def)
    show "uf_progress (files (startAnalysis e w) ! k) = 100"
      using p f by (simp add: fl nth final_def)
  qed
qed

section \<open>Persisted records and completed items\<close>

lemma failure_None_inserted:
  "failure e ctx upd i f js = None \<Longrightarrow> \<exists>data b. inserted e ctx i f = Some (data, b)"
  by (auto simp add: failure_def inserted_def split: sum.splits option.splits if_splits)

lemma inserted_failure:
  "inserted e ctx i f = Some (data, b) \<Longrightarrow>
   failure e ctx upd i f js =
     thrown (upd i (number_or_0 (numberOf e) (field data ''matchScore'')) js)"
  by (auto simp add: failure_def inserted_def split: sum.splits option.splits if_splits)

lemma countStatus_Cons:
  "countStatus st (f # fs) = (if uf_status f = st then 1 else 0) + countStatus st fs"
  by (simp add: countStatus_def)

lemma escaping_failed:
  "escaping e ctx upd i f js = Some t \<Longrightarrow>
   uf_status f \<noteq> COMPLETED \<and> failure e ctx upd i f js = Some ThrownNullish"
  using escaping_None [of e ctx upd i f js] by auto

lemma completed_le_records:
  "countStatus COMPLETED (outcomes e ctx upd i fs) \<le>
     countStatus COMPLETED fs + length (loopRecords e ctx jid rs upd i fs)"
proof (induction fs arbitrary: i)
  case Nil
  then show ?case by (simp add: countStatus_def)
next
  case (Cons f fs)
  show ?case
  proof (cases "escaping e ctx upd i f []")
    case (Some t)
    from escaping_failed [OF this] Some show ?thesis
      by (simp add: countStatus_Cons final_def)
  next
    case None
    show ?thesis
    proof (cases "uf_status f = COMPLETED")
      case True
      with None Cons.IH [of "Suc i"] show ?thesis by (simp add: countStatus_Cons)
    next
      case False
      show ?thesis
      proof (cases "failure e ctx upd i f []")
        case None': None
        from failure_None_inserted [OF this] obtain data b where
          "inserted e ctx i f = Some (data, b)" by blast
        with False None None' Cons.IH [of "Suc i"] show ?thesis
          by (simp add: countStatus_Cons final_def)
      next
        case (Some err)
        with False None Cons.IH [of "Suc i"] show ?thesis
          by (simp add: countStatus_Cons final_def)
      qed
    qed
  qed
qed

lemma completed_eq_records:
  assumes "\<And>i ms js. thrown (upd i ms js) = None"
  shows "countStatus COMPLETED (outcomes e ctx upd i fs) =
     countStatus COMPLETED fs + length (loopRecords e ctx jid rs upd i fs)"
proof (induction fs arbitrary: i)
  case Nil
  then show ?case by (simp add: countStatus_def)
next
  case (Cons f fs)
  have ins: "failure e ctx upd i f [] = None" if "inserted e ctx i f = Some (data, b)" for data b
    using that inserted_failure [of e ctx i f data b upd "[]"] assms by simp
  show ?case
  proof (cases "escaping e ctx upd i f []")
    case (Some t)
    from escaping_failed [OF this] have p: "uf_status f \<noteq> COMPLETED"
      and fl: "failure e ctx upd i f [] = Some ThrownNullish" by simp_all
    from fl ins have "inserted e ctx i f = None" by (cases "inserted e ctx i f") auto
    with Some p fl show ?thesis by (simp add: countStatus_Cons final_def)
  next
    case None
    show ?thesis
    proof (cases "uf_status f = COMPLETED")
      case True
      with None Cons.IH [of "Suc i"] show ?thesis by (simp add: countStatus_Cons)
    next
      case False
      show ?thesis
      proof (cases "inserted e ctx i f")
        case None': None
        with failure_None_inserted [of e ctx upd i f "[]"] obtain err where
          "failure e ctx upd i f [] = Some err" by (cases "failure e ctx upd i f []") auto
        with False None None' Cons.IH [of "Suc i"] show ?thesis
          by (simp add: countStatus_Cons final_def)
      next
        case (Some p)
        obtain data b where p: "p = (data, b)" by (cases p)
        with Some ins have "failure e ctx upd i f [] = None" by simp
        with False None Some p Cons.IH [of "Suc i"] show ?thesis
          by (simp add: countStatus_Cons final_def)
      qed
    qed
  qed
qed

lemma record_of_completed:
  "k < length fs \<Longrightarrow> uf_status (fs ! k) \<noteq> COMPLETED \<Longrightarrow>
   uf_status (outcomes e ctx upd i fs ! k) = COMPLETED \<Longrightarrow>
   \<exists>data b. recordOf e ctx jid rs (i + k) (fs ! k) data b
               \<in> set (loopRecords e ctx jid rs upd i fs)"
proof (induction fs arbitrary: i k)
  case Nil
  then show ?case by simp
next
  case (Cons f fs)
  show ?case
  proof (cases k)
    case 0
    with Cons.prems have "failure e ctx upd i f [] = None"
      by (cases "failure e ctx upd i f []") (simp_all add: final_def)
    from failure_None_inserted [OF this] obtain data b where
      "inserted e ctx i f = Some (data, b)" by blast
    with 0 Cons.prems show ?thesis by auto
  next
    case (Suc k')
    show ?thesis
    proof (cases "escaping e ctx upd i f []")
      case None
      with Suc Cons.prems Cons.IH [of k' "Suc i"] show ?thesis by auto
    next
      case (Some t)
      with Suc Cons.prems show ?thesis by simp
    qed
  qed
qed

lemma cand_id_recordOf: "cand_id (recordOf e ctx jid rs i f data b) = CId (now e i) i"
  by (simp add: recordOf_def newCandidate_def)


text \<open>
  C1 (as stated, refuted). The claim says that a record is persisted if and only if
  its item reaches \<open>COMPLETED\<close>, also when the update of the job statistics fails
  after the insert. With one pending item whose analysis and insert succeed and
  whose statistics update throws, the run persists one record and leaves the item
  in \<open>ERROR\<close>: one record, no completed item.
\<close>

theorem record_without_completion_counterexample:
  "length (db_candidates
     (startAnalysis (env0\<lparr>jobsUpdateOne := \<lambda>i. Some (Thrown (Some ''timeout''))\<rparr>)
        (world0 [item ''a'' ''a.pdf'' 10 READY]))) = 1 \<and>
   map uf_status (files
     (startAnalysis (env0\<lparr>jobsUpdateOne := \<lambda>i. Some (Thrown (Some ''timeout''))\<rparr>)
        (world0 [item ''a'' ''a.pdf'' 10 READY]))) = [ERROR] \<and>
   countStatus COMPLETED (files
     (startAnalysis (env0\<lparr>jobsUpdateOne := \<lambda>i. Some (Thrown (Some ''timeout''))\<rparr>)
        (world0 [item ''a'' ''a.pdf'' 10 READY]))) = 0"
proof -
  let ?e = "env0\<lparr>jobsUpdateOne := \<lambda>i. Some (Thrown (Some ''timeout''))\<rparr>"
  let ?cf = "item ''a'' ''a.pdf'' 10 READY"
  let ?ctx = "context_of_job job1" and ?upd = "updateStats ?e job1"
  have find: "jobsFind ?e = None" by (simp add: env0_def)
  have ins: "inserted ?e ?ctx 0 ?cf = Some (scored 91, JStr ''QUJD'')"
    by (simp add: inserted_def analyzeResume_def fileToBase64_def env0_def context_of_job_def
          job1_def item_def resume_def scored_def)
  have fail: "failure ?e ?ctx ?upd 0 ?cf [] = Some (Thrown (Some ''timeout''))"
    by (simp add: inserted_failure [OF ins] updateStats_def)
  have st: "uf_status ?cf \<noteq> COMPLETED" by (simp add: item_def)
  have c: "db_candidates (startAnalysis ?e (world0 [?cf])) =
          [recordOf ?e ?ctx ''j1'' True 0 ?cf (scored 91) (JStr ''QUJD'')]"
    using startAnalysis_candidates [OF world0_run(1) _ find world0_run(3), of "[?cf]"] ins st
    by (simp add: world0_run)
  have f: "files (startAnalysis ?e (world0 [?cf])) = [?cf\<lparr>uf_status := ERROR, uf_progress := 0\<rparr>]"
    using startAnalysis_files [OF world0_run(1) _ find world0_run(3), of "[?cf]"] fail st
    by (simp add: world0_run final_def)
  show ?thesis by (simp add: c f countStatus_def)
qed

text \<open>
  C1 (amended). In every run that reaches the loop, each item that the run brings
  to \<open>COMPLETED\<close> has its record persisted by that run, so the run persists at least
  as many records as it completes items; when no update of the job statistics
  fails, it persists exactly as many records as it completes items.
\<close>

theorem records_cover_completed:
  assumes "selectedJobId w \<noteq> []" and "files w \<noteq> []" and "jobsFind e = None"
    and "find (\<lambda>j. job_id j = selectedJobId w) (db_jobs w) = Some job"
  shows
    "(\<forall>k < length (files w).
        uf_status (files w ! k) \<noteq> COMPLETED \<and>
        uf_status (files (startAnalysis e w) ! k) = COMPLETED \<longrightarrow>
        (\<exists>c \<in> set (drop (length (db_candidates w)) (db_candidates (startAnalysis e w))).
           cand_id c = CId (now e k) k)) \<and>
     countStatus COMPLETED (files (startAnalysis e w)) + length (db_candidates w) \<le>
       countStatus COMPLETED (files w) + length (db_candidates (startAnalysis e w)) \<and>
     ((\<forall>k. jobsUpdateOne e k = None) \<longrightarrow>
        countStatus COMPLETED (files (startAnalysis e w)) + length (db_candidates w) =
          countStatus COMPLETED (files w) + length (db_candidates (startAnalysis e w)))"
proof -
  let ?ctx = "context_of_job job" and ?upd = "updateStats e job"
  let ?jid = "selectedJobId w"
  note fl = startAnalysis_files [OF assms]
  note cs = startAnalysis_candidates [OF assms]
  have each: "\<exists>c \<in> set (loopRecords e ?ctx ?jid True ?upd 0 (files w)). cand_id c = CId (now e k) k"
    if k: "k < length (files w)" "uf_status (files w ! k) \<noteq> COMPLETED"
      and fin: "uf_status (outcomes e ?ctx ?upd 0 (files w) ! k) = COMPLETED" for k
  proof -
    from record_of_completed [OF k fin, of ?jid True] obtain data b where
      "recordOf e ?ctx ?jid True k (files w ! k) data b
         \<in> set (loopRecords e ?ctx ?jid True ?upd 0 (files w))" by auto
    then show ?thesis using cand_id_recordOf by blast
  qed
  have le: "countStatus COMPLETED (outcomes e ?ctx ?upd 0 (files w)) \<le>
      countStatus COMPLETED (files w) + length (loopRecords e ?ctx ?jid True ?upd 0 (files w))"
    by (rule completed_le_records)
  have eq: "countStatus COMPLETED (outcomes e ?ctx ?upd 0 (files w)) =
      countStatus COMPLETED (files w) + length (loopRecords e ?ctx ?jid True ?upd 0 (files w))"
    if "\<forall>k. jobsUpdateOne e k = None"
    by (rule completed_eq_records) (simp add: updateStats_def that)
  show ?thesis using each le eq by (simp add: fl cs)
qed

theorem records_cover_completed_witness:
  "countStatus COMPLETED (files (startAnalysis env0
      (world0 [item ''a'' ''a.pdf'' 10 READY, item ''b'' ''b.pdf'' 10 READY]))) =
   length (db_candidates (startAnalysis env0
      (world0 [item ''a'' ''a.pdf'' 10 READY, item ''b'' ''b.pdf'' 10 READY])))"
proof -
  let ?fs = "[item ''a'' ''a.pdf'' 10 READY, item ''b'' ''b.pdf'' 10 READY]"
  have ne: "files (world0 ?fs) \<noteq> []" by (simp add: world0_run)
  have upd: "\<forall>k. jobsUpdateOne env0 k = None" by (simp add: env0_def)
  note T = records_cover_completed [OF world0_run(1) ne world0_run(2) world0_run(3),
             THEN conjunct2, THEN conjunct2, THEN mp, OF upd]
  have "countStatus COMPLETED (files (world0 ?fs)) = 0" "length (db_candidates (world0 ?fs)) = 0"
    by (simp_all add: world0_run countStatus_def item_def)
  with T show ?thesis by simp
qed

section \<open>Job context from an uploaded description\<close>

text \<open>
  C5. On the page that extracts the job description inside \<^verbatim>\<open>startAnalysis\<close> (the
  second page of \<^verbatim>\<open>part_000\<close>): when the job context is asked from an uploaded
  document and the extraction throws, the run changes neither the job store, nor the
  candidate store, nor the queue; it issues no analysis call and no status change,
  and shows exactly one error message. Once the inputs pass the validation, that
  message is the extraction failure with the message of the thrown value; for a
  thrown \<^verbatim>\<open>null\<close> or \<^verbatim>\<open>undefined\<close> it is the message of the outer \<^verbatim>\<open>catch\<close>.
\<close>

theorem extraction_failure_aborts:
  assumes "jdSource w = Upload" and "jdFile w = Some jd" and "extractJobDetails e jd = Inl err"
  shows
    "db_jobs (startAnalysis_jdSource e w) = db_jobs w \<and>
     jobs (startAnalysis_jdSource e w) = jobs w \<and>
     db_candidates (startAnalysis_jdSource e w) = db_candidates w \<and>
     files (startAnalysis_jdSource e w) = files w \<and>
     analysisCalls (eventsOf (startAnalysis_jdSource e) w) = 0 \<and>
     filter isTransition (eventsOf (startAnalysis_jdSource e) w) = [] \<and>
     length (errorsShown (eventsOf (startAnalysis_jdSource e) w)) = 1 \<and>
     errorMsg (startAnalysis_jdSource e w) = Some (hd (errorsShown (eventsOf (startAnalysis_jdSource e) w))) \<and>
     (selectedJobId w \<noteq> [] \<and> files w \<noteq> [] \<longrightarrow>
        errorsShown (eventsOf (startAnalysis_jdSource e) w) =
          [case err of
             Thrown m \<Rightarrow> ''Failed to extract job details: '' @ tmpl m
           | ThrownNullish \<Rightarrow> ''Analysis failed: '' @ typeErrorText] \<and>
        \<not> isAnalyzing (startAnalysis_jdSource e w))"
proof (cases err)
  case (Thrown m)
  with assms show ?thesis
    by (simp add: startAnalysis_jdSource_def extractionFailed_def setErrorMsg_def eventsOf_def
          analysisCalls_def Let_def)
next
  case ThrownNullish
  with assms show ?thesis
    by (simp add: startAnalysis_jdSource_def extractionFailed_def outerCatch_def
          msg_or_unknown_TypeError setErrorMsg_def eventsOf_def analysisCalls_def Let_def)
qed

theorem extraction_failure_aborts_witness:
  "errorsShown (eventsOf (startAnalysis_jdSource env0)
       (uploadWorld [item ''a'' ''a.pdf'' 10 READY, item ''b'' ''b.pdf'' 10 READY])) =
     [''Failed to extract job details: unreadable''] \<and>
   db_jobs (startAnalysis_jdSource env0
       (uploadWorld [item ''a'' ''a.pdf'' 10 READY, item ''b'' ''b.pdf'' 10 READY])) = [job1] \<and>
   files (startAnalysis_jdSource env0
       (uploadWorld [item ''a'' ''a.pdf'' 10 READY, item ''b'' ''b.pdf'' 10 READY])) =
     [item ''a'' ''a.pdf'' 10 READY, item ''b'' ''b.pdf'' 10 READY]"
proof -
  let ?fs = "[item ''a'' ''a.pdf'' 10 READY, item ''b'' ''b.pdf'' 10 READY]"
  let ?w = "uploadWorld ?fs"
  have src: "jdSource ?w = Upload" and jd: "jdFile ?w = Some (resume ''jd.pdf'' 10)"
    by (simp_all add: uploadWorld_def)
  have ex: "extractJobDetails env0 (resume ''jd.pdf'' 10) = Inl (Thrown (Some ''unreadable''))"
    by (simp add: env0_def)
  have valid: "selectedJobId ?w \<noteq> [] \<and> files ?w \<noteq> []"
    and old: "db_jobs ?w = [job1]" "files ?w = ?fs"
    by (simp_all add: uploadWorld_def world0_run)
  note T = extraction_failure_aborts [OF src jd ex]
  note msg = T [THEN conjunct2, THEN conjunct2, THEN conjunct2, THEN conjunct2, THEN conjunct2,
                THEN conjunct2, THEN conjunct2, THEN conjunct2, THEN mp, OF valid, THEN conjunct1]
  from msg T [THEN conjunct1] T [THEN conjunct2, THEN conjunct2, THEN conjunct2, THEN conjunct1] old
  show ?thesis by simp
qed

section \<open>Counters of the job\<close>

lemma loop_two:
  "snd (iteration e ctx jid rs upd 0 a w) = None \<Longrightarrow>
   fst (loop e ctx jid rs upd 0 [a, b] w) =
     fst (iteration e ctx jid rs upd (Suc 0) b (fst (iteration e ctx jid rs upd 0 a w)))"
  by (simp add: loop_Cons del: loop.simps) simp

lemma no_escape:
  "failure e ctx upd i f (db_jobs w) = None \<Longrightarrow> snd (iteration e ctx jid rs upd i f w) = None"
  by (simp add: iteration_escape escaping_None)

lemma inserted_env0:
  "inserted env0 (context_of_job job1) i (item u n sz READY) = Some (scored 91, JStr ''QUJD'')"
  by (simp add: inserted_def analyzeResume_def fileToBase64_def env0_def context_of_job_def
        job1_def item_def resume_def scored_def)

lemma score_env0: "number_or_0 (numberOf env0) (field (scored 91) ''matchScore'') = 91"
  by (simp add: number_or_0_def scored_def)

lemma updateStats_env0:
  "updateStats env0 cj i ms js =
     Inr (jobs_updateOne (job_id cj) (num_or_0 (applicantsCount cj) + 1)
            (if ms > 80 then num_or_0 (matchesCount cj) + 1 else num_or_0 (matchesCount cj)) js)"
  by (simp add: updateStats_def env0_def)

text \<open>
  C7 (the code departs from the claim). Two pending resumes are scored 91 against
  the stored job \<open>j1\<close>, whose counters are 0. \<^verbatim>\<open>pages/ResumeScore.tsx\<close> computes the
  new counters from the job record it fetched before the loop, so both turns write
  the counters 1 and 1: after two persisted records the store holds one applicant
  and one high match.
\<close>

theorem stats_lost_update:
  "length (db_candidates (startAnalysis env0
     (world0 [item ''a'' ''a.pdf'' 10 READY, item ''b'' ''b.pdf'' 10 READY]))) = 2 \<and>
   map applicantsCount (db_jobs (startAnalysis env0
     (world0 [item ''a'' ''a.pdf'' 10 READY, item ''b'' ''b.pdf'' 10 READY]))) = [Some 1] \<and>
   map matchesCount (db_jobs (startAnalysis env0
     (world0 [item ''a'' ''a.pdf'' 10 READY, item ''b'' ''b.pdf'' 10 READY]))) = [Some 1]"
proof -
  let ?a = "item ''a'' ''a.pdf'' 10 READY" and ?b = "item ''b'' ''b.pdf'' 10 READY"
  let ?w = "world0 [?a, ?b]"
  have ne: "files ?w \<noteq> []" by (simp add: world0_run)
  have st: "uf_status ?a \<noteq> COMPLETED" "uf_status ?b \<noteq> COMPLETED" by (simp_all add: item_def)
  note run = startAnalysis_run [OF world0_run(1) ne world0_run(2) world0_run(3)]
  have c: "length (db_candidates (startAnalysis env0 ?w)) = 2"
    using startAnalysis_candidates [OF world0_run(1) ne world0_run(2) world0_run(3)] st
    by (simp add: world0_run inserted_env0 escaping_None failure_env0)
  have esc: "snd (iteration env0 (context_of_job job1) ''j1'' True (updateStats env0 job1) 0 ?a
                     (?w\<lparr>errorMsg := None, isAnalyzing := True\<rparr>)) = None"
    by (rule no_escape) (rule failure_env0)
  have "db_jobs (startAnalysis env0 ?w) =
          db_jobs (fst (iteration env0 (context_of_job job1) ''j1'' True (updateStats env0 job1)
                          (Suc 0) ?b
                          (fst (iteration env0 (context_of_job job1) ''j1'' True
                                  (updateStats env0 job1) 0 ?a
                                  (?w\<lparr>errorMsg := None, isAnalyzing := True\<rparr>)))))"
    using loop_two [OF esc, of ?b] by (simp add: run world0_run del: loop.simps)
  then have "db_jobs (startAnalysis env0 ?w) =
          jobs_updateOne ''j1'' 1 1 (jobs_updateOne ''j1'' 1 1 [job1])"
    using st
    by (simp add: world0_run iteration_jobs inserted_env0 score_env0 updateStats_env0)
       (simp add: job1_def)
  then have "db_jobs (startAnalysis env0 ?w) = [job1\<lparr>applicantsCount := Some 1, matchesCount := Some 1\<rparr>]"
    by (simp add: jobs_updateOne_def job1_def)
  with c show ?thesis by simp
qed

text \<open>
  The first page of \<^verbatim>\<open>part_000\<close> fetches the job again before each update, and
  counts both records on the same input.
\<close>

lemma stats_refetch_counts:
  "map applicantsCount (db_jobs (startAnalysis_jobSource env0
     (world0 [item ''a'' ''a.pdf'' 10 READY, item ''b'' ''b.pdf'' 10 READY]))) = [Some 2] \<and>
   map matchesCount (db_jobs (startAnalysis_jobSource env0
     (world0 [item ''a'' ''a.pdf'' 10 READY, item ''b'' ''b.pdf'' 10 READY]))) = [Some 2]"
proof -
  let ?a = "item ''a'' ''a.pdf'' 10 READY" and ?b = "item ''b'' ''b.pdf'' 10 READY"
  let ?w = "world0 [?a, ?b]"
  let ?upd = "updateStats_refetch env0 Database ''j1''"
  have st: "uf_status ?a \<noteq> COMPLETED" "uf_status ?b \<noteq> COMPLETED" by (simp_all add: item_def)
  have src: "jobSource ?w = Database" by (simp add: world0_def)
  have res: "resolveContext env0 (?w\<lparr>errorMsg := None, isAnalyzing := True\<rparr>) =
               Inr (context_of_job job1, ''j1'')"
    by (simp add: resolveContext_def world0_def env0_def job1_def)
  have run: "startAnalysis_jobSource env0 ?w =
     afterLoop (loop env0 (context_of_job job1) ''j1'' False ?upd 0 [?a, ?b]
        (?w\<lparr>errorMsg := None, isAnalyzing := True\<rparr>))"
    using res by (simp add: startAnalysis_jobSource_def Let_def src world0_run)
  have refetch: "jobsRefetch env0 i = None" for i by (simp add: env0_def)
  have u1: "?upd 0 91 [job1] = Inr [job1\<lparr>applicantsCount := Some 1, matchesCount := Some 1\<rparr>]"
    by (simp add: updateStats_refetch_def updateStats_env0 jobs_updateOne_def refetch job1_def)
  have u2: "?upd (Suc 0) 91 [job1\<lparr>applicantsCount := Some 1, matchesCount := Some 1\<rparr>] =
              Inr [job1\<lparr>applicantsCount := Some 2, matchesCount := Some 2\<rparr>]"
    by (simp add: updateStats_refetch_def updateStats_env0 jobs_updateOne_def refetch job1_def)
  have "failure env0 (context_of_job job1) ?upd 0 ?a [job1] = None"
    by (simp add: inserted_failure [OF inserted_env0] score_env0 u1)
  then have esc: "snd (iteration env0 (context_of_job job1) ''j1'' False ?upd 0 ?a
                     (?w\<lparr>errorMsg := None, isAnalyzing := True\<rparr>)) = None"
    by (intro no_escape) (simp add: world0_run)
  have "db_jobs (startAnalysis_jobSource env0 ?w) =
          db_jobs (fst (iteration env0 (context_of_job job1) ''j1'' False ?upd (Suc 0) ?b
                          (fst (iteration env0 (context_of_job job1) ''j1'' False ?upd 0 ?a
                                  (?w\<lparr>errorMsg := None, isAnalyzing := True\<rparr>)))))"
    using loop_two [OF esc, of ?b] by (simp add: run del: loop.simps)
  then have "db_jobs (startAnalysis_jobSource env0 ?w) =
          [job1\<lparr>applicantsCount := Some 2, matchesCount := Some 2\<rparr>]"
    using st
    by (simp add: world0_run iteration_jobs inserted_env0 score_env0 u1 u2)
  then show ?thesis by simp
qed

text \<open>What one update writes: one more applicant, and one more high match exactly
  when the overall score exceeds 80; the page with the upload source skips the
  update.\<close>

lemma updateStats_writes:
  "jobsUpdateOne e i = None \<Longrightarrow>
   updateStats e cj i ms js =
     Inr (jobs_updateOne (job_id cj) (num_or_0 (applicantsCount cj) + 1)
            (num_or_0 (matchesCount cj) + (if ms > 80 then 1 else 0)) js)"
  by (simp add: updateStats_def)

lemma updateStats_refetch_upload: "updateStats_refetch e Upload sel i ms js = Inr js"
  by (simp add: updateStats_refetch_def)

end
